theory Spec2Isabelle
  imports Complex_Main
begin

section \<open>Orbital Command: cache, alerts, subscriptions and delivery of \<open>server.js\<close>\<close>

text \<open>
  The development follows \<open>src/server.js\<close>. Conventions of the embedding:
  \<^item> JavaScript numbers that the modelled code only compares or copies (Kp, fluxes,
    coordinates) are reals; \<open>Date.now()\<close> is an integer number of milliseconds.
  \<^item> \<open>null\<close>/\<open>undefined\<close> is \<open>None\<close>.
  \<^item> Everything read from outside (clock readings, the outcome of the upstream fetches,
    of sheet reads and writes, of the push request) is an explicit argument of the
    function that reads it.
  \<^item> Sheet cells and message texts that are Chinese in the source are written here as
    ASCII constants (\<open>ENABLED\<close> for the "enabled" status cell, and so on); only their
    equality matters to the code.
\<close>

subsection \<open>Sub-records of a reading\<close>

record solar_wind =
  sw_time :: "string option"
  density :: real
  speed :: real
  temperature :: real

record mag_field =
  mf_time :: "string option"
  bx :: real
  "by" :: real
  bz :: real
  bt :: real

record kp_index =
  kp_time :: "string option"
  kp :: real
  level :: string
  gLevel :: string

record xray_flux =
  xr_time :: "string option"
  xr_flux :: real
  flareClass :: string
  flareLevel :: "string option"
  fullClass :: string

record proton_flux =
  pr_time :: "string option"
  pr_flux :: real
  sLevel :: string

record electron_flux =
  el_time :: "string option"
  el_flux :: real

record iss_position =
  lat :: "real option"
  lon :: "real option"
  altitude :: "real option"
  velocity :: "real option"
  visibility :: "string option"
  location :: string

record aurora_chances =
  iceland :: int
  norway :: int
  finland :: int
  canada :: int
  alaska :: int
  hokkaido :: int
  japan :: int
  scotland :: int
  newZealand :: int

text \<open>What \<open>Promise.all\<close> resolves to in \<open>getSpaceWeather\<close>: one value per fetcher, \<open>None\<close>
  where the fetcher returned \<open>null\<close>. CME and flare events are only passed through, so an
  event is kept as an uninterpreted string.\<close>

record fetched =
  f_solarWind :: "solar_wind option"
  f_magField :: "mag_field option"
  f_kp :: "kp_index option"
  f_xray :: "xray_flux option"
  f_proton :: "proton_flux option"
  f_electron :: "electron_flux option"
  f_cme :: "string list"
  f_nasaFlares :: "string list"
  f_iss :: "iss_position option"

text \<open>The alert texts are template strings; a constructor stands for the template and its
  argument for the interpolated value.\<close>

datatype alert_message =
    StrongGeomagneticStorm string
  | GeomagneticStorm string
  | XClassFlare string
  | MClassFlare string
  | RadiationStorm string

record snapshot =
  timestamp :: string
  alertLevel :: string
  alertMessages :: "alert_message list"
  solarWind :: solar_wind
  magneticField :: mag_field
  kpRecord :: kp_index
  xray :: xray_flux
  proton :: proton_flux
  electron :: electron_flux
  cme :: "string list"
  flares :: "string list"
  iss :: "iss_position option"
  aurora :: aurora_chances

datatype js_error = TypeError | Thrown string

text \<open>The value \<open>getSpaceWeather\<close> returns: the reading (\<open>success: true\<close>) or the sentinel
  \<open>{success: false, error, timestamp}\<close>.\<close>

datatype weather = Reading snapshot | Failed js_error string

subsection \<open>JavaScript helpers\<close>

definition js_round :: "real \<Rightarrow> int" where
  "js_round x = \<lfloor>x + 1 / 2\<rfloor>"

text \<open>\<open>a >= b\<close> on strings compares code units lexicographically.\<close>

fun js_str_lt :: "string \<Rightarrow> string \<Rightarrow> bool" where
  "js_str_lt [] [] = False"
| "js_str_lt [] (y # ys) = True"
| "js_str_lt (x # xs) [] = False"
| "js_str_lt (x # xs) (y # ys) =
     (if (of_char x :: nat) < of_char y then True
      else if (of_char y :: nat) < of_char x then False
      else js_str_lt xs ys)"

definition js_str_ge :: "string \<Rightarrow> string \<Rightarrow> bool" where
  "js_str_ge a b = (\<not> js_str_lt a b)"

subsection \<open>The aggregation inside \<open>getSpaceWeather\<close>\<close>

text \<open>\<open>kp?.kp || 2\<close>: a missing record and a Kp of 0 both give 2.\<close>

definition kpValue :: "kp_index option \<Rightarrow> real" where
  "kpValue k = (case k of None \<Rightarrow> 2 | Some r \<Rightarrow> if kp r = 0 then 2 else kp r)"

text \<open>The chances are computed here on exact reals. The code computes \<open>kpValue * 15\<close> in
  IEEE doubles before \<open>Math.round\<close>, so where the exact product lies on a half (Kp 4.1 gives
  61.5 exactly and slightly less as a double) the code's value is one lower than the one
  here. No statement below depends on these numbers.\<close>

definition auroraChances :: "real \<Rightarrow> aurora_chances" where
  "auroraChances v =
     \<lparr> iceland = min 95 (js_round (v * 15 + 40)),
       norway = min 90 (js_round (v * 15 + 30)),
       finland = min 85 (js_round (v * 15 + 20)),
       canada = min 80 (js_round (v * 15 + 10)),
       alaska = min 75 (js_round (v * 15 + 5)),
       hokkaido = max 5 (js_round (v * 15 - 30)),
       japan = max 5 (js_round (v * 15 - 30)),
       scotland = max 10 (js_round (v * 15 - 20)),
       newZealand = max 5 (js_round (v * 15 - 35)) \<rparr>"

text \<open>The three \<open>if\<close> blocks that derive \<open>alertLevel\<close> and \<open>alertMessages\<close>, each as a step on
  the pair of the two variables. \<open>kp.gLevel\<close> in the first block dereferences \<open>kp\<close> without
  \<open>?.\<close>, hence the \<open>TypeError\<close> branch.\<close>

definition alertKp :: "kp_index option \<Rightarrow> string \<times> alert_message list
    \<Rightarrow> js_error + string \<times> alert_message list" where
  "alertKp k = (\<lambda>(lvl, msgs).
     if kpValue k \<ge> 7 then
       (case k of None \<Rightarrow> Inl TypeError
        | Some r \<Rightarrow> Inr (''severe'',
            msgs @ [StrongGeomagneticStorm (''G'' @ remove1 (CHR ''G'') (gLevel r))]))
     else if kpValue k \<ge> 5 then
       (case k of None \<Rightarrow> Inl TypeError
        | Some r \<Rightarrow> Inr (''warning'', msgs @ [GeomagneticStorm (gLevel r)]))
     else Inr (lvl, msgs))"

definition alertXray :: "xray_flux option \<Rightarrow> string \<times> alert_message list
    \<Rightarrow> string \<times> alert_message list" where
  "alertXray x = (\<lambda>(lvl, msgs).
     case x of None \<Rightarrow> (lvl, msgs)
     | Some r \<Rightarrow>
         if flareClass r = ''X'' then (''severe'', msgs @ [XClassFlare (fullClass r)])
         else if flareClass r = ''M'' then
           ((if lvl = ''normal'' then ''warning'' else lvl), msgs @ [MClassFlare (fullClass r)])
         else (lvl, msgs))"

definition alertProton :: "proton_flux option \<Rightarrow> string \<times> alert_message list
    \<Rightarrow> string \<times> alert_message list" where
  "alertProton p = (\<lambda>(lvl, msgs).
     case p of None \<Rightarrow> (lvl, msgs)
     | Some r \<Rightarrow>
         if sLevel r \<noteq> [] \<and> sLevel r \<noteq> ''S0'' then
           ((if js_str_ge (sLevel r) ''S3'' then ''severe''
             else if lvl = ''normal'' then ''warning'' else lvl),
            msgs @ [RadiationStorm (sLevel r)])
         else (lvl, msgs))"

definition deriveAlerts :: "fetched \<Rightarrow> js_error + string \<times> alert_message list" where
  "deriveAlerts f =
     (case alertKp (f_kp f) (''normal'', []) of
        Inl e \<Rightarrow> Inl e
      | Inr a \<Rightarrow> Inr (alertProton (f_proton f) (alertXray (f_xray f) a)))"

definition orDefault :: "'a option \<Rightarrow> 'a \<Rightarrow> 'a" where
  "orDefault v d = (case v of None \<Rightarrow> d | Some x \<Rightarrow> x)"

text \<open>The body of the \<open>try\<close> block after the fetchers have resolved.\<close>

definition buildResult :: "string \<Rightarrow> fetched \<Rightarrow> js_error + snapshot" where
  "buildResult stamp f =
     (case deriveAlerts f of
        Inl e \<Rightarrow> Inl e
      | Inr (lvl, msgs) \<Rightarrow> Inr
          \<lparr> timestamp = stamp,
            alertLevel = lvl,
            alertMessages = msgs,
            solarWind = orDefault (f_solarWind f)
              \<lparr> sw_time = None, density = 4, speed = 400, temperature = 100000 \<rparr>,
            magneticField = orDefault (f_magField f)
              \<lparr> mf_time = None, bx = 0, by = 0, bz = 0, bt = 5 \<rparr>,
            kpRecord = orDefault (f_kp f)
              \<lparr> kp_time = None, kp = 2, level = ''quiet'', gLevel = ''G0'' \<rparr>,
            xray = orDefault (f_xray f)
              \<lparr> xr_time = None, xr_flux = 1 / 10000000, flareClass = ''B'',
                flareLevel = None, fullClass = ''B1.0'' \<rparr>,
            proton = orDefault (f_proton f) \<lparr> pr_time = None, pr_flux = 1, sLevel = ''S0'' \<rparr>,
            electron = orDefault (f_electron f) \<lparr> el_time = None, el_flux = 10000 \<rparr>,
            cme = f_cme f,
            flares = f_nasaFlares f,
            iss = f_iss f,
            aurora = auroraChances (kpValue (f_kp f)) \<rparr>)"

subsection \<open>The reading cache\<close>

record cache =
  cachedSpaceWeather :: "snapshot option"
  cacheTime :: int

definition initial_cache :: cache where
  "initial_cache = \<lparr> cachedSpaceWeather = None, cacheTime = 0 \<rparr>"

definition CACHE_DURATION :: int where
  "CACHE_DURATION = 60 * 1000"

text \<open>One call of \<open>getSpaceWeather\<close>. \<open>now\<close> is the \<open>Date.now()\<close> read on entry, \<open>stamp\<close> the
  \<open>new Date().toISOString()\<close> of the result, \<open>up\<close> what awaiting the nine fetchers gives
  (\<open>Inl\<close>: the await throws). The third component of the result tells whether the fetchers
  were called at all.\<close>

definition cacheHit :: "cache \<Rightarrow> bool \<Rightarrow> int \<Rightarrow> bool" where
  "cacheHit c forceRefresh now =
     (\<not> forceRefresh \<and> cachedSpaceWeather c \<noteq> None \<and> now - cacheTime c < CACHE_DURATION)"

definition getSpaceWeather ::
    "cache \<Rightarrow> bool \<Rightarrow> int \<Rightarrow> string \<Rightarrow> js_error + fetched \<Rightarrow> cache \<times> weather \<times> bool" where
  "getSpaceWeather c forceRefresh now stamp up =
     (case (if cacheHit c forceRefresh now then cachedSpaceWeather c else None) of
        Some s \<Rightarrow> (c, Reading s, False)
      | None \<Rightarrow>
          (case up of
             Inl e \<Rightarrow> (c, Failed e stamp, True)
           | Inr f \<Rightarrow>
               (case buildResult stamp f of
                  Inl e \<Rightarrow> (c, Failed e stamp, True)
                | Inr result \<Rightarrow>
                    (\<lparr> cachedSpaceWeather = Some result, cacheTime = now \<rparr>, Reading result, True))))"

text \<open>A sequence of reads: each call has its own flag, clock readings and upstream outcome.\<close>

record read_call =
  rc_force :: bool
  rc_now :: int
  rc_iso :: string
  rc_up :: "js_error + fetched"

fun getSpaceWeatherSeq :: "cache \<Rightarrow> read_call list \<Rightarrow> cache \<times> (weather \<times> bool) list" where
  "getSpaceWeatherSeq c [] = (c, [])"
| "getSpaceWeatherSeq c (r # rs) =
     (case getSpaceWeather c (rc_force r) (rc_now r) (rc_iso r) (rc_up r) of
        (c', w, fetchedNow) \<Rightarrow>
          (case getSpaceWeatherSeq c' rs of (c'', out) \<Rightarrow> (c'', (w, fetchedNow) # out)))"

subsection \<open>The spreadsheet\<close>

text \<open>A row of the subscription sheet (columns: user id, type, name, subscribed at, push
  time, status, last push), of the push log and of the four history sheets.\<close>

record sub_row =
  row_userId :: string
  row_type :: string
  row_name :: string
  row_subscribedAt :: string
  row_pushTime :: string
  row_status :: string
  row_lastPush :: string

definition ENABLED :: string where
  "ENABLED = ''enabled''"

definition DISABLED :: string where
  "DISABLED = ''disabled''"

text \<open>A message text. The report and alert texts are template strings over the reading;
  the wording is not modelled, only which template was filled from which reading.\<close>

datatype msg_text =
    Literal string
  | SpaceWeatherReport snapshot
  | AuroraAlertText snapshot
  | FlareAlertText snapshot

datatype segment = TextSegment msg_text | OtherSegment

datatype log_content = FirstChars msg_text | FlexMessage

record log_row =
  log_time :: string
  log_userId :: string
  log_type :: string
  log_content :: log_content
  log_status :: string

datatype history_row =
    SolarWindRow string real real real real real
  | KpRow string real string string
  | IssRow string real real real real string
  | RadiationRow string real real string

text \<open>\<open>doc\<close> when it is connected: \<open>doc.sheetsByTitle[...]\<close> for the six sheets the modelled
  functions use, \<open>None\<close> where no sheet has that title.\<close>

record doc =
  subscriptionSheet :: "sub_row list option"
  pushLogSheet :: "log_row list option"
  solarWindSheet :: "history_row list option"
  kpSheet :: "history_row list option"
  issSheet :: "history_row list option"
  radiationSheet :: "history_row list option"

text \<open>\<open>!x\<close> on an environment variable: unset and empty are both falsy.\<close>

definition configured :: "string option \<Rightarrow> bool" where
  "configured v = (case v of None \<Rightarrow> False | Some s \<Rightarrow> s \<noteq> [])"

subsection \<open>Signature check and webhook entry\<close>

text \<open>\<open>hmac secret body\<close> stands for
  \<open>crypto.createHmac('SHA256', secret).update(body).digest('base64')\<close>; the signature is the
  \<open>x-line-signature\<close> header, \<open>None\<close> when the header is absent.\<close>

definition validateLineSignature ::
    "(string \<Rightarrow> string \<Rightarrow> string) \<Rightarrow> string option \<Rightarrow> string \<Rightarrow> string option \<Rightarrow> bool" where
  "validateLineSignature hmac secret body signature =
     (case (if configured secret then secret else None) of
        None \<Rightarrow> True
      | Some k \<Rightarrow> Some (hmac k body) = signature)"

text \<open>The head of the \<open>/webhook\<close> handler, up to the loop over the events: what it answers
  and whether the events of the request are handled.\<close>

datatype 'e webhook_result =
    OkNoTokenConfigured
  | InvalidSignature
  | EventsHandled "'e list"

definition webhook ::
    "(string \<Rightarrow> string \<Rightarrow> string) \<Rightarrow> string option \<Rightarrow> string option
      \<Rightarrow> string \<Rightarrow> string option \<Rightarrow> 'e list \<Rightarrow> 'e webhook_result" where
  "webhook hmac token secret rawBody signature events =
     (if \<not> configured token then OkNoTokenConfigured
      else if configured secret \<and> \<not> validateLineSignature hmac secret rawBody signature
        then InvalidSignature
      else EventsHandled events)"

subsection \<open>Pushing a message\<close>

datatype payload = Plain msg_text | Segments "segment list"

datatype http_outcome = HttpOk | HttpNotOk | FetchThrows

text \<open>What one call of \<open>linePush\<close> meets: the outcome of the HTTP request, the time of the
  log row, and whether \<open>sheet.addRow\<close> on the push log succeeds.\<close>

record push_io =
  pio_http :: http_outcome
  pio_stamp :: string
  pio_logOk :: bool

text \<open>What one call of \<open>linePush\<close> did: the user it was called for, the value it returned,
  and the body of the request it posted (\<open>None\<close>: no request was made).\<close>

record push_call =
  pc_userId :: string
  pc_returned :: bool
  pc_request :: "(string \<times> segment list) option"

definition contentPreview :: "segment list \<Rightarrow> log_content" where
  "contentPreview msgArray =
     (case msgArray of
        [] \<Rightarrow> FlexMessage
      | OtherSegment # _ \<Rightarrow> FlexMessage
      | TextSegment (Literal s) # _ \<Rightarrow>
          (if take 50 s = [] then FlexMessage else FirstChars (Literal (take 50 s)))
      | TextSegment t # _ \<Rightarrow> FirstChars t)"

definition linePush ::
    "string option \<Rightarrow> doc option \<Rightarrow> string \<Rightarrow> payload \<Rightarrow> push_io \<Rightarrow> doc option \<times> push_call" where
  "linePush token d userId messages io =
     (if \<not> configured token then
        (d, \<lparr> pc_userId = userId, pc_returned = False, pc_request = None \<rparr>)
      else
        let msgArray = (case messages of Segments ms \<Rightarrow> ms | Plain t \<Rightarrow> [TextSegment t]);
            request = Some (userId, take 5 msgArray);
            failed = \<lparr> pc_userId = userId, pc_returned = False, pc_request = request \<rparr>;
            sent = \<lparr> pc_userId = userId, pc_returned = True, pc_request = request \<rparr>
        in (case pio_http io of
              FetchThrows \<Rightarrow> (d, failed)
            | HttpNotOk \<Rightarrow> (d, failed)
            | HttpOk \<Rightarrow>
                (case d of
                   None \<Rightarrow> (d, sent)
                 | Some dc \<Rightarrow>
                     (case pushLogSheet dc of
                        None \<Rightarrow> (d, sent)
                      | Some rows \<Rightarrow>
                          if pio_logOk io then
                            (Some (dc\<lparr> pushLogSheet := Some (rows @
                               [\<lparr> log_time = pio_stamp io,
                                  log_userId = take 10 userId @ ''...'',
                                  log_type = ''push'',
                                  log_content = contentPreview msgArray,
                                  log_status = ''success'' \<rparr>]) \<rparr>), sent)
                          else (d, failed)))))"

subsection \<open>Subscriptions\<close>







record subscriber =
  sub_userId :: string
  sub_pushTime :: string

definition getSubscribersByType :: "doc option \<Rightarrow> bool \<Rightarrow> string \<Rightarrow> subscriber list" where
  "getSubscribersByType d readOk type =
     (case d of
        None \<Rightarrow> []
      | Some dc \<Rightarrow>
          (case subscriptionSheet dc of
             None \<Rightarrow> []
           | Some rows \<Rightarrow>
               if readOk then
                 map (\<lambda>row. \<lparr> sub_userId = row_userId row, sub_pushTime = row_pushTime row \<rparr>)
                   (filter (\<lambda>row. row_type row = type \<and> row_status row = ENABLED) rows)
               else []))"



subsection \<open>Fan-out\<close>

text \<open>\<open>for (const user of subscribers) await linePush(user.userId, msg)\<close>; the \<open>i\<close>-th call
  meets \<open>io i\<close>.\<close>

fun pushEach ::
    "string option \<Rightarrow> doc option \<Rightarrow> subscriber list \<Rightarrow> payload \<Rightarrow> (nat \<Rightarrow> push_io) \<Rightarrow> nat
      \<Rightarrow> doc option \<times> push_call list" where
  "pushEach token d [] msg io i = (d, [])"
| "pushEach token d (user # users) msg io i =
     (case linePush token d (sub_userId user) msg (io i) of
        (d', call) \<Rightarrow>
          (case pushEach token d' users msg io (Suc i) of (d'', calls) \<Rightarrow> (d'', call # calls)))"

definition logLength :: "doc option \<Rightarrow> nat" where
  "logLength d =
     (case d of None \<Rightarrow> 0
      | Some dc \<Rightarrow> (case pushLogSheet dc of None \<Rightarrow> 0 | Some rows \<Rightarrow> length rows))"

subsection \<open>Alert check\<close>

record alerts =
  last_kp :: int
  last_flare :: int
  last_cme :: int
  last_radiation :: int

definition initial_lastAlerts :: alerts where
  "initial_lastAlerts = \<lparr> last_kp = 0, last_flare = 0, last_cme = 0, last_radiation = 0 \<rparr>"

definition ALERT_COOLDOWN :: int where
  "ALERT_COOLDOWN = 60 * 60 * 1000"

text \<open>What one pass of \<open>checkAlerts\<close> meets: the clock and upstream outcome of its forced
  \<open>getSpaceWeather\<close>, its own \<open>Date.now()\<close>, and for each of the two blocks whether the
  sheet read succeeds and what the pushes meet.\<close>

record alert_env =
  ae_cacheNow :: int
  ae_stamp :: string
  ae_up :: "js_error + fetched"
  ae_now :: int
  ae_auroraReadOk :: bool
  ae_auroraPush :: "nat \<Rightarrow> push_io"
  ae_flareReadOk :: bool
  ae_flarePush :: "nat \<Rightarrow> push_io"

text \<open>What the pass did: the \<open>linePush\<close> calls of each block, and whether each block reached
  its last two statements (the assignment to \<open>lastAlerts\<close> and the log line).\<close>

record alert_outcome =
  kpCalls :: "push_call list"
  kpSent :: bool
  flareCalls :: "push_call list"
  flareSent :: bool

text \<open>\<open>spaceWeather.kp?.kp >= 5\<close> and \<open>spaceWeather.xray?.flareClass === 'X'\<close> are both false
  on the failure sentinel, which has neither field, so the pass does nothing more then; a
  reading always has both fields.\<close>

definition checkAlerts ::
    "string option \<Rightarrow> alerts \<Rightarrow> cache \<Rightarrow> doc option \<Rightarrow> alert_env
      \<Rightarrow> alerts \<times> cache \<times> doc option \<times> alert_outcome" where
  "checkAlerts token lastAlerts c d e =
     (case getSpaceWeather c True (ae_cacheNow e) (ae_stamp e) (ae_up e) of
        (c', spaceWeather, fetchedNow) \<Rightarrow>
          (case spaceWeather of
             Failed err t \<Rightarrow>
               (lastAlerts, c', d,
                \<lparr> kpCalls = [], kpSent = False, flareCalls = [], flareSent = False \<rparr>)
           | Reading s \<Rightarrow>
               let now = ae_now e;
                   (la1, d1, calls1, sent1) =
                     (if kp (kpRecord s) \<ge> 5 \<and> now - last_kp lastAlerts > ALERT_COOLDOWN then
                        let subscribers = getSubscribersByType d (ae_auroraReadOk e) ''aurora'' in
                        if length subscribers > 0 then
                          (case pushEach token d subscribers (Plain (AuroraAlertText s))
                                  (ae_auroraPush e) 0 of
                             (d', calls) \<Rightarrow> (lastAlerts\<lparr> last_kp := now \<rparr>, d', calls, True))
                        else (lastAlerts, d, [], False)
                      else (lastAlerts, d, [], False));
                   (la2, d2, calls2, sent2) =
                     (if flareClass (xray s) = ''X'' \<and> now - last_flare la1 > ALERT_COOLDOWN then
                        let subscribers = getSubscribersByType d1 (ae_flareReadOk e) ''flare'' in
                        if length subscribers > 0 then
                          (case pushEach token d1 subscribers (Plain (FlareAlertText s))
                                  (ae_flarePush e) 0 of
                             (d', calls) \<Rightarrow> (la1\<lparr> last_flare := now \<rparr>, d', calls, True))
                        else (la1, d1, [], False)
                      else (la1, d1, [], False))
               in (la2, c', d2,
                   \<lparr> kpCalls = calls1, kpSent = sent1, flareCalls = calls2, flareSent = sent2 \<rparr>)))"

text \<open>A run of passes one after another: each pass has returned before the next begins, so
  the next pass finds the \<open>lastAlerts\<close> the previous one left (passes that overlap are
  \<open>checkAlertsOverlapping\<close> below). Only \<open>checkAlerts\<close> writes \<open>lastAlerts\<close>, so that is what one
  pass hands to the next; the cache and the spreadsheet are as each pass finds them. Each
  outcome is paired with the \<open>now\<close> of its pass.\<close>

record alert_pass =
  ap_cache :: cache
  ap_doc :: "doc option"
  ap_env :: alert_env

fun checkAlertsRun ::
    "string option \<Rightarrow> alerts \<Rightarrow> alert_pass list \<Rightarrow> alerts \<times> (int \<times> alert_outcome) list" where
  "checkAlertsRun token la [] = (la, [])"
| "checkAlertsRun token la (p # ps) =
     (case checkAlerts token la (ap_cache p) (ap_doc p) (ap_env p) of
        (la', c', d', out) \<Rightarrow>
          (case checkAlertsRun token la' ps of
             (la'', outs) \<Rightarrow> (la'', (ae_now (ap_env p), out) # outs)))"

definition kpDispatchTimes :: "(int \<times> alert_outcome) list \<Rightarrow> int list" where
  "kpDispatchTimes outs = map fst (filter (\<lambda>(t, out). kpSent out) outs)"

definition flareDispatchTimes :: "(int \<times> alert_outcome) list \<Rightarrow> int list" where
  "flareDispatchTimes outs = map fst (filter (\<lambda>(t, out). flareSent out) outs)"

subsection \<open>Daily push\<close>

definition endsWith :: "string \<Rightarrow> string \<Rightarrow> bool" where
  "endsWith s suffix =
     (length suffix \<le> length s \<and> drop (length s - length suffix) s = suffix)"

text \<open>\<open>currentTime.split(':')[0]\<close>.\<close>

definition beforeColon :: "string \<Rightarrow> string" where
  "beforeColon s = takeWhile (\<lambda>ch. ch \<noteq> CHR '':'') s"

text \<open>\<open>formatSpaceWeatherMessage\<close> reads \<open>data.kp.kp\<close> first, which throws on the failure
  sentinel.\<close>

definition formatSpaceWeatherMessage :: "weather \<Rightarrow> js_error + msg_text" where
  "formatSpaceWeatherMessage w =
     (case w of Reading s \<Rightarrow> Inr (SpaceWeatherReport s) | Failed e t \<Rightarrow> Inl TypeError)"

text \<open>What one tick of \<open>dailyPush\<close> meets: \<open>currentTime\<close> is the formatted local time.\<close>

record daily_env =
  de_currentTime :: string
  de_readOk :: bool
  de_cacheNow :: int
  de_stamp :: string
  de_up :: "js_error + fetched"
  de_push :: "nat \<Rightarrow> push_io"

record daily_outcome =
  dp_refreshed :: bool
  dp_calls :: "push_call list"
  dp_thrown :: "js_error option"

definition dailyTargets :: "doc option \<Rightarrow> daily_env \<Rightarrow> subscriber list" where
  "dailyTargets d e =
     filter (\<lambda>s. sub_pushTime s = beforeColon (de_currentTime e) @ '':00'')
       (getSubscribersByType d (de_readOk e) ''daily'')"

definition dailyPush ::
    "string option \<Rightarrow> cache \<Rightarrow> doc option \<Rightarrow> daily_env \<Rightarrow> cache \<times> doc option \<times> daily_outcome" where
  "dailyPush token c d e =
     (if \<not> endsWith (de_currentTime e) '':00'' then
        (c, d, \<lparr> dp_refreshed = False, dp_calls = [], dp_thrown = None \<rparr>)
      else
        let hour = beforeColon (de_currentTime e) @ '':00'';
            subscribers = getSubscribersByType d (de_readOk e) ''daily'';
            targetUsers = filter (\<lambda>s. sub_pushTime s = hour) subscribers
        in if length targetUsers = 0 then
             (c, d, \<lparr> dp_refreshed = False, dp_calls = [], dp_thrown = None \<rparr>)
           else
             (case getSpaceWeather c True (de_cacheNow e) (de_stamp e) (de_up e) of
                (c', spaceWeather, fetchedNow) \<Rightarrow>
                  (case formatSpaceWeatherMessage spaceWeather of
                     Inl err \<Rightarrow>
                       (c', d, \<lparr> dp_refreshed = fetchedNow, dp_calls = [], dp_thrown = Some err \<rparr>)
                   | Inr message \<Rightarrow>
                       (case pushEach token d targetUsers (Plain message) (de_push e) 0 of
                          (d', calls) \<Rightarrow>
                            (c', d', \<lparr> dp_refreshed = fetchedNow, dp_calls = calls,
                                      dp_thrown = None \<rparr>)))))"

subsection \<open>Recording\<close>

datatype category = SolarWindCategory | KpCategory | IssCategory | RadiationCategory

text \<open>The state inside the \<open>try\<close> block of \<open>recordData\<close>: the spreadsheet and the categories
  whose write was started so far. A step returns the state it reached and the error it
  threw, if any; \<open>andThen\<close> is statement sequencing, which stops at the first throw.\<close>

type_synonym rec_state = "doc \<times> category list"

definition andThen ::
    "(rec_state \<Rightarrow> rec_state \<times> js_error option) \<Rightarrow> (rec_state \<Rightarrow> rec_state \<times> js_error option)
      \<Rightarrow> rec_state \<Rightarrow> rec_state \<times> js_error option" where
  "andThen first second st =
     (case first st of
        (st', Some err) \<Rightarrow> (st', Some err)
      | (st', None) \<Rightarrow> second st')"

text \<open>\<open>sheet.addRow(row)\<close> on \<open>doc.sheetsByTitle[...]\<close>: a \<open>TypeError\<close> when there is no such
  sheet, the error of the request when it fails.\<close>

definition addRow ::
    "history_row list option \<Rightarrow> bool \<Rightarrow> history_row \<Rightarrow> js_error + history_row list" where
  "addRow sheet writeOk row =
     (case sheet of
        None \<Rightarrow> Inl TypeError
      | Some rows \<Rightarrow> if writeOk then Inr (rows @ [row]) else Inl (Thrown ''addRow''))"

definition recordSolarWind :: "string \<Rightarrow> weather \<Rightarrow> bool \<Rightarrow> rec_state \<Rightarrow> rec_state \<times> js_error option" where
  "recordSolarWind now data writeOk = (\<lambda>(dc, started).
     case data of
       Failed e t \<Rightarrow> ((dc, started), None)
     | Reading s \<Rightarrow>
         (case addRow (solarWindSheet dc) writeOk
                 (SolarWindRow now (speed (solarWind s)) (density (solarWind s))
                    (bz (magneticField s)) (bt (magneticField s)) (temperature (solarWind s))) of
            Inl err \<Rightarrow> ((dc, started @ [SolarWindCategory]), Some err)
          | Inr rows \<Rightarrow>
              ((dc\<lparr> solarWindSheet := Some rows \<rparr>, started @ [SolarWindCategory]), None)))"

definition recordKp :: "string \<Rightarrow> weather \<Rightarrow> bool \<Rightarrow> rec_state \<Rightarrow> rec_state \<times> js_error option" where
  "recordKp now data writeOk = (\<lambda>(dc, started).
     case data of
       Failed e t \<Rightarrow> ((dc, started), None)
     | Reading s \<Rightarrow>
         (case addRow (kpSheet dc) writeOk
                 (KpRow now (kp (kpRecord s)) (level (kpRecord s)) (gLevel (kpRecord s))) of
            Inl err \<Rightarrow> ((dc, started @ [KpCategory]), Some err)
          | Inr rows \<Rightarrow> ((dc\<lparr> kpSheet := Some rows \<rparr>, started @ [KpCategory]), None)))"

text \<open>\<open>data.iss.lat.toFixed(4)\<close> and the three like it throw when the number is missing. The
  row keeps the numbers themselves; the code writes their \<open>toFixed\<close> strings into the
  cells, which no statement below looks at.\<close>

definition issRow :: "string \<Rightarrow> iss_position \<Rightarrow> js_error + history_row" where
  "issRow now i =
     (case (lat i, lon i, altitude i, velocity i) of
        (Some la, Some lo, Some al, Some ve) \<Rightarrow> Inr (IssRow now la lo al ve (location i))
      | _ \<Rightarrow> Inl TypeError)"

definition recordIss :: "string \<Rightarrow> weather \<Rightarrow> bool \<Rightarrow> rec_state \<Rightarrow> rec_state \<times> js_error option" where
  "recordIss now data writeOk = (\<lambda>(dc, started).
     case data of
       Failed e t \<Rightarrow> ((dc, started), None)
     | Reading s \<Rightarrow>
         (case iss s of
            None \<Rightarrow> ((dc, started), None)
          | Some i \<Rightarrow>
              (case issRow now i of
                 Inl err \<Rightarrow> ((dc, started @ [IssCategory]), Some err)
               | Inr row \<Rightarrow>
                   (case addRow (issSheet dc) writeOk row of
                      Inl err \<Rightarrow> ((dc, started @ [IssCategory]), Some err)
                    | Inr rows \<Rightarrow>
                        ((dc\<lparr> issSheet := Some rows \<rparr>, started @ [IssCategory]), None)))))"

definition recordRadiation :: "string \<Rightarrow> weather \<Rightarrow> bool \<Rightarrow> rec_state \<Rightarrow> rec_state \<times> js_error option" where
  "recordRadiation now data writeOk = (\<lambda>(dc, started).
     case data of
       Failed e t \<Rightarrow> ((dc, started), None)
     | Reading s \<Rightarrow>
         (case addRow (radiationSheet dc) writeOk
                 (RadiationRow now (pr_flux (proton s)) (el_flux (electron s)) (sLevel (proton s))) of
            Inl err \<Rightarrow> ((dc, started @ [RadiationCategory]), Some err)
          | Inr rows \<Rightarrow>
              ((dc\<lparr> radiationSheet := Some rows \<rparr>, started @ [RadiationCategory]), None)))"

text \<open>What one pass of \<open>recordData\<close> meets; \<open>re_writeOk\<close> tells for each category whether its
  \<open>addRow\<close> request succeeds.\<close>

record record_env =
  re_now :: string
  re_cacheNow :: int
  re_stamp :: string
  re_up :: "js_error + fetched"
  re_writeOk :: "category \<Rightarrow> bool"

text \<open>The outcome: the categories whose write was started, the error the \<open>catch\<close> logged
  (\<open>None\<close>: the pass reached its last line and logged that the data are recorded).\<close>

record record_outcome =
  rd_started :: "category list"
  rd_caught :: "js_error option"

definition recordData ::
    "cache \<Rightarrow> doc option \<Rightarrow> record_env \<Rightarrow> cache \<times> doc option \<times> record_outcome" where
  "recordData c d e =
     (case d of
        None \<Rightarrow> (c, None, \<lparr> rd_started = [], rd_caught = None \<rparr>)
      | Some dc \<Rightarrow>
          (case getSpaceWeather c True (re_cacheNow e) (re_stamp e) (re_up e) of
             (c', data, fetchedNow) \<Rightarrow>
               (case andThen (recordSolarWind (re_now e) data (re_writeOk e SolarWindCategory))
                      (andThen (recordKp (re_now e) data (re_writeOk e KpCategory))
                        (andThen (recordIss (re_now e) data (re_writeOk e IssCategory))
                          (recordRadiation (re_now e) data (re_writeOk e RadiationCategory))))
                      (dc, []) of
                  ((dc', started), caught) \<Rightarrow>
                    (c', Some dc', \<lparr> rd_started = started, rd_caught = caught \<rparr>))))"

subsection \<open>Example values\<close>

definition example_fetched :: fetched where
  "example_fetched =
     \<lparr> f_solarWind = None, f_magField = None,
       f_kp = Some \<lparr> kp_time = None, kp = 52 / 10, level = ''storm'', gLevel = ''G1'' \<rparr>,
       f_xray = Some \<lparr> xr_time = None, xr_flux = 1 / 4000, flareClass = ''X'',
                      flareLevel = Some ''2.5'', fullClass = ''X2.5'' \<rparr>,
       f_proton = None, f_electron = None, f_cme = [], f_nasaFlares = [], f_iss = None \<rparr>"

definition example_reading :: snapshot where
  "example_reading =
     \<lparr> timestamp = ''t0'', alertLevel = ''severe'',
       alertMessages = [GeomagneticStorm ''G1'', XClassFlare ''X2.5''],
       solarWind = \<lparr> sw_time = None, density = 4, speed = 400, temperature = 100000 \<rparr>,
       magneticField = \<lparr> mf_time = None, bx = 0, by = 0, bz = 0, bt = 5 \<rparr>,
       kpRecord = \<lparr> kp_time = None, kp = 52 / 10, level = ''storm'', gLevel = ''G1'' \<rparr>,
       xray = \<lparr> xr_time = None, xr_flux = 1 / 4000, flareClass = ''X'',
                flareLevel = Some ''2.5'', fullClass = ''X2.5'' \<rparr>,
       proton = \<lparr> pr_time = None, pr_flux = 1, sLevel = ''S0'' \<rparr>,
       electron = \<lparr> el_time = None, el_flux = 10000 \<rparr>,
       cme = [], flares = [], iss = None,
       aurora = \<lparr> iceland = 95, norway = 90, finland = 85, canada = 80, alaska = 75,
                  hokkaido = 48, japan = 48, scotland = 58, newZealand = 43 \<rparr> \<rparr>"

definition example_cache :: cache where
  "example_cache = \<lparr> cachedSpaceWeather = Some example_reading, cacheTime = 1000000 \<rparr>"

definition example_hmac :: "string \<Rightarrow> string \<Rightarrow> string" where
  "example_hmac secret body = secret @ body"

definition example_doc :: doc where
  "example_doc =
     \<lparr> subscriptionSheet = Some
         [\<lparr> row_userId = ''U1'', row_type = ''daily'', row_name = ''daily report'',
            row_subscribedAt = ''t0'', row_pushTime = ''08:00'', row_status = ENABLED,
            row_lastPush = [] \<rparr>,
          \<lparr> row_userId = ''U2'', row_type = ''daily'', row_name = ''daily report'',
            row_subscribedAt = ''t0'', row_pushTime = ''20:00'', row_status = ENABLED,
            row_lastPush = [] \<rparr>,
          \<lparr> row_userId = ''U3'', row_type = ''daily'', row_name = ''daily report'',
            row_subscribedAt = ''t0'', row_pushTime = ''08:00'', row_status = DISABLED,
            row_lastPush = [] \<rparr>,
          \<lparr> row_userId = ''U1'', row_type = ''aurora'', row_name = ''aurora alert'',
            row_subscribedAt = ''t0'', row_pushTime = [], row_status = ENABLED,
            row_lastPush = [] \<rparr>,
          \<lparr> row_userId = ''U2'', row_type = ''flare'', row_name = ''flare alert'',
            row_subscribedAt = ''t0'', row_pushTime = [], row_status = ENABLED,
            row_lastPush = [] \<rparr>],
       pushLogSheet = Some [],
       solarWindSheet = Some [],
       kpSheet = Some [],
       issSheet = Some [],
       radiationSheet = Some [] \<rparr>"

definition push_ok :: push_io where
  "push_ok = \<lparr> pio_http = HttpOk, pio_stamp = ''t9'', pio_logOk = True \<rparr>"

definition push_rejected :: push_io where
  "push_rejected = \<lparr> pio_http = HttpNotOk, pio_stamp = ''t9'', pio_logOk = True \<rparr>"

definition hasPushLog :: "doc option \<Rightarrow> bool" where
  "hasPushLog d = (case d of None \<Rightarrow> False | Some dc \<Rightarrow> pushLogSheet dc \<noteq> None)"

subsection \<open>Describing a recording pass\<close>

text \<open>The categories whose sub-record is present in the data, in the order of the pass; the
  sheet of a category; whether the write of a category fails; and the prefix of a list up
  to and including its first failing element.\<close>

definition presentCategories :: "weather \<Rightarrow> category list" where
  "presentCategories data =
     (case data of
        Failed e t \<Rightarrow> []
      | Reading s \<Rightarrow>
          [SolarWindCategory, KpCategory] @ (if iss s = None then [] else [IssCategory])
            @ [RadiationCategory])"

definition sheetOf :: "doc \<Rightarrow> category \<Rightarrow> history_row list option" where
  "sheetOf dc cat =
     (case cat of
        SolarWindCategory \<Rightarrow> solarWindSheet dc
      | KpCategory \<Rightarrow> kpSheet dc
      | IssCategory \<Rightarrow> issSheet dc
      | RadiationCategory \<Rightarrow> radiationSheet dc)"

definition issIncomplete :: "weather \<Rightarrow> bool" where
  "issIncomplete data =
     (case data of
        Failed e t \<Rightarrow> False
      | Reading s \<Rightarrow>
          (case iss s of
             None \<Rightarrow> False
           | Some i \<Rightarrow> lat i = None \<or> lon i = None \<or> altitude i = None \<or> velocity i = None))"

definition writeFails :: "doc \<Rightarrow> (category \<Rightarrow> bool) \<Rightarrow> weather \<Rightarrow> category \<Rightarrow> bool" where
  "writeFails dc writeOk data cat =
     (if sheetOf dc cat = None then True
      else if cat = IssCategory \<and> issIncomplete data then True
      else if writeOk cat then False else True)"

fun upToFirstFailure :: "('a \<Rightarrow> bool) \<Rightarrow> 'a list \<Rightarrow> 'a list" where
  "upToFirstFailure fails [] = []"
| "upToFirstFailure fails (x # xs) = (if fails x then [x] else x # upToFirstFailure fails xs)"

definition rowCount :: "doc option \<Rightarrow> category \<Rightarrow> nat" where
  "rowCount d cat =
     (case d of
        None \<Rightarrow> 0
      | Some dc \<Rightarrow> (case sheetOf dc cat of None \<Rightarrow> 0 | Some rows \<Rightarrow> length rows))"

definition example_record_env :: record_env where
  "example_record_env =
     \<lparr> re_now = ''t5'', re_cacheNow = 2000000, re_stamp = ''t0'', re_up = Inr example_fetched,
       re_writeOk = (\<lambda>cat. cat \<noteq> SolarWindCategory) \<rparr>"




definition example_alert_env :: alert_env where
  "example_alert_env =
     \<lparr> ae_cacheNow = 9999000, ae_stamp = ''t0'', ae_up = Inr example_fetched,
       ae_now = 10000000,
       ae_auroraReadOk = True, ae_auroraPush = (\<lambda>i. push_rejected),
       ae_flareReadOk = True, ae_flarePush = (\<lambda>i. push_ok) \<rparr>"

definition example_passes :: "alert_pass list" where
  "example_passes =
     [\<lparr> ap_cache = initial_cache, ap_doc = Some example_doc, ap_env = example_alert_env \<rparr>,
      \<lparr> ap_cache = initial_cache, ap_doc = Some example_doc,
        ap_env = example_alert_env\<lparr> ae_now := 10600000 \<rparr> \<rparr>,
      \<lparr> ap_cache = initial_cache, ap_doc = Some example_doc,
        ap_env = example_alert_env\<lparr> ae_now := 13660000 \<rparr> \<rparr>]"

definition example_daily_env :: daily_env where
  "example_daily_env =
     \<lparr> de_currentTime = ''08:00'', de_readOk = True, de_cacheNow = 3000000, de_stamp = ''t0'',
       de_up = Inr example_fetched, de_push = (\<lambda>i. push_ok) \<rparr>"

subsection \<open>Describing the push log\<close>

text \<open>The rows of the push log (none when there is no spreadsheet or no such sheet), and
  \<open>msgArray\<close> of \<open>linePush\<close> for a payload.\<close>

definition pushLog :: "doc option \<Rightarrow> log_row list" where
  "pushLog d =
     (case d of
        None \<Rightarrow> []
      | Some dc \<Rightarrow> (case pushLogSheet dc of None \<Rightarrow> [] | Some rows \<Rightarrow> rows))"

definition msgArrayOf :: "payload \<Rightarrow> segment list" where
  "msgArrayOf messages = (case messages of Segments ms \<Rightarrow> ms | Plain t \<Rightarrow> [TextSegment t])"

definition example_old_row :: log_row where
  "example_old_row =
     \<lparr> log_time = ''t3'', log_userId = ''U5...'', log_type = ''push'',
       log_content = FirstChars (Literal ''earlier''), log_status = ''success'' \<rparr>"

definition example_logged_doc :: doc where
  "example_logged_doc = example_doc\<lparr> pushLogSheet := Some [example_old_row] \<rparr>"

definition example_alert_doc :: doc where
  "example_alert_doc =
     example_doc\<lparr> subscriptionSheet := Some
       [\<lparr> row_userId = ''U1'', row_type = ''aurora'', row_name = ''aurora alert'',
          row_subscribedAt = ''t0'', row_pushTime = [], row_status = ENABLED,
          row_lastPush = [] \<rparr>,
        \<lparr> row_userId = ''U2'', row_type = ''flare'', row_name = ''flare alert'',
          row_subscribedAt = ''t0'', row_pushTime = [], row_status = ENABLED,
          row_lastPush = [] \<rparr>,
        \<lparr> row_userId = ''U4'', row_type = ''aurora'', row_name = ''aurora alert'',
          row_subscribedAt = ''t0'', row_pushTime = [], row_status = ENABLED,
          row_lastPush = [] \<rparr>,
        \<lparr> row_userId = ''U6'', row_type = ''aurora'', row_name = ''aurora alert'',
          row_subscribedAt = ''t0'', row_pushTime = [], row_status = DISABLED,
          row_lastPush = [] \<rparr>] \<rparr>"

definition example_mixed_env :: alert_env where
  "example_mixed_env =
     example_alert_env\<lparr> ae_auroraPush := (\<lambda>i. if i = 0 then push_rejected else push_ok) \<rparr>"

subsection \<open>Overlapping alert checks\<close>

text \<open>\<open>setInterval(checkAlerts, 5 * 60 * 1000)\<close> starts a pass every five minutes whether or
  not the previous pass has returned. A pass reads \<open>lastAlerts.kp\<close> in the test of its
  aurora block and writes it only at the end of the block, after awaiting
  \<open>getSubscribersByType\<close> and every \<open>linePush\<close>; the flare block does the same with
  \<open>lastAlerts.flare\<close>. So when the pushes of one pass take longer than the interval, the next
  pass makes its tests before the first has written. \<open>checkAlertsOverlapping\<close> is this
  interleaving of two passes: each test of the second pass runs before the matching write
  of the first, so both passes test against the same \<open>lastAlerts\<close>; the writes of the first
  pass land first, those of the second after them.\<close>

definition checkAlertsOverlapping ::
    "string option \<Rightarrow> alerts \<Rightarrow> alert_pass \<Rightarrow> alert_pass
      \<Rightarrow> alerts \<times> (int \<times> alert_outcome) list" where
  "checkAlertsOverlapping token la first second =
     (case checkAlerts token la (ap_cache first) (ap_doc first) (ap_env first) of
        (la1, c1, d1, out1) \<Rightarrow>
          (case checkAlerts token la (ap_cache second) (ap_doc second) (ap_env second) of
             (la2, c2, d2, out2) \<Rightarrow>
               (la1\<lparr> last_kp :=
                      (if kpSent out2 then ae_now (ap_env second) else last_kp la1),
                    last_flare :=
                      (if flareSent out2 then ae_now (ap_env second) else last_flare la1) \<rparr>,
                [(ae_now (ap_env first), out1), (ae_now (ap_env second), out2)])))"

definition example_storm_fetched :: fetched where
  "example_storm_fetched =
     \<lparr> f_solarWind = None, f_magField = None,
       f_kp = Some \<lparr> kp_time = None, kp = 52 / 10, level = ''storm'', gLevel = ''G1'' \<rparr>,
       f_xray = None, f_proton = None, f_electron = None, f_cme = [], f_nasaFlares = [],
       f_iss = None \<rparr>"

definition example_calm_sun_reading :: snapshot where
  "example_calm_sun_reading =
     example_reading\<lparr> alertLevel := ''warning'', alertMessages := [GeomagneticStorm ''G1''],
       xray := \<lparr> xr_time = None, xr_flux = 1 / 10000000, flareClass = ''B'',
                 flareLevel = None, fullClass = ''B1.0'' \<rparr> \<rparr>"

definition example_storm_env :: alert_env where
  "example_storm_env =
     \<lparr> ae_cacheNow = 9999000, ae_stamp = ''t0'', ae_up = Inr example_storm_fetched,
       ae_now = 10000000,
       ae_auroraReadOk = True, ae_auroraPush = (\<lambda>i. push_ok),
       ae_flareReadOk = True, ae_flarePush = (\<lambda>i. push_ok) \<rparr>"

definition example_first_pass :: alert_pass where
  "example_first_pass =
     \<lparr> ap_cache = initial_cache, ap_doc = Some example_alert_doc, ap_env = example_storm_env \<rparr>"

definition example_second_pass :: alert_pass where
  "example_second_pass =
     \<lparr> ap_cache = initial_cache, ap_doc = Some example_alert_doc,
       ap_env = example_storm_env\<lparr> ae_cacheNow := 10299000, ae_now := 10300000 \<rparr> \<rparr>"

section \<open>Properties\<close>

lemma alertKp_level:
  "alertKp k (''normal'', []) = Inr (lvl, msgs) \<Longrightarrow>
     lvl \<in> {''normal'', ''warning'', ''severe''} \<and> (lvl = ''normal'') = (msgs = [])"
  by (auto simp: alertKp_def split: if_splits option.splits)

lemma alertXray_level:
  "lvl \<in> {''normal'', ''warning'', ''severe''} \<and> (lvl = ''normal'') = (msgs = []) \<Longrightarrow>
   alertXray x (lvl, msgs) = (lvl', msgs') \<Longrightarrow>
     lvl' \<in> {''normal'', ''warning'', ''severe''} \<and> (lvl' = ''normal'') = (msgs' = [])"
  by (auto simp: alertXray_def split: if_splits option.splits)

lemma alertProton_level:
  "lvl \<in> {''normal'', ''warning'', ''severe''} \<and> (lvl = ''normal'') = (msgs = []) \<Longrightarrow>
   alertProton p (lvl, msgs) = (lvl', msgs') \<Longrightarrow>
     lvl' \<in> {''normal'', ''warning'', ''severe''} \<and> (lvl' = ''normal'') = (msgs' = [])"
  by (auto simp: alertProton_def split: if_splits option.splits)

lemma deriveAlerts_level:
  assumes "deriveAlerts f = Inr (lvl, msgs)"
  shows "lvl \<in> {''normal'', ''warning'', ''severe''} \<and> (lvl = ''normal'') = (msgs = [])"
proof -
  from assms obtain a where a: "alertKp (f_kp f) (''normal'', []) = Inr a"
    and r: "alertProton (f_proton f) (alertXray (f_xray f) a) = (lvl, msgs)"
    by (auto simp: deriveAlerts_def split: sum.splits)
  obtain l1 m1 where a1: "a = (l1, m1)" by (cases a)
  obtain l2 m2 where a2: "alertXray (f_xray f) (l1, m1) = (l2, m2)"
    by (cases "alertXray (f_xray f) (l1, m1)")
  from alertKp_level a a1
  have "l1 \<in> {''normal'', ''warning'', ''severe''} \<and> (l1 = ''normal'') = (m1 = [])" by blast
  from alertXray_level [OF this a2]
  have "l2 \<in> {''normal'', ''warning'', ''severe''} \<and> (l2 = ''normal'') = (m2 = [])" .
  moreover have "alertProton (f_proton f) (l2, m2) = (lvl, msgs)"
    using r a1 a2 by simp
  ultimately show ?thesis by (rule alertProton_level)
qed

lemma alertKp_total: "\<exists>a. alertKp k s = Inr a"
  by (cases s) (auto simp: alertKp_def kpValue_def split: option.splits)

lemma buildResult_total: "\<exists>s. buildResult stamp f = Inr s"
proof -
  obtain a where "alertKp (f_kp f) (''normal'', []) = Inr a"
    using alertKp_total by blast
  then show ?thesis
    by (simp add: buildResult_def deriveAlerts_def split: prod.splits)
qed

text \<open>
  C10. Every reading that \<open>getSpaceWeather\<close> builds (it returns \<open>Reading s\<close> after calling
  the fetchers) has an \<open>alertLevel\<close> among "normal", "warning", "severe", and the level is
  "normal" exactly when \<open>alertMessages\<close> is empty. The build itself never throws, so
  every resolved set of fetcher results gives such a reading.
\<close>

theorem alert_level_normal_iff_no_messages:
  "(getSpaceWeather c forceRefresh now stamp (Inr f) = (c', Reading s, True) \<longrightarrow>
      alertLevel s \<in> {''normal'', ''warning'', ''severe''} \<and>
      (alertLevel s = ''normal'') = (alertMessages s = []))
   \<and> (\<exists>s. buildResult stamp f = Inr s)"
proof (rule conjI)
  show "getSpaceWeather c forceRefresh now stamp (Inr f) = (c', Reading s, True) \<longrightarrow>
      alertLevel s \<in> {''normal'', ''warning'', ''severe''} \<and>
      (alertLevel s = ''normal'') = (alertMessages s = [])"
  proof (rule impI)
    assume g: "getSpaceWeather c forceRefresh now stamp (Inr f) = (c', Reading s, True)"
    then have b: "buildResult stamp f = Inr s"
      by (auto simp: getSpaceWeather_def split: option.splits sum.splits if_splits)
    then obtain lvl msgs where d: "deriveAlerts f = Inr (lvl, msgs)"
      and s: "lvl = alertLevel s" "msgs = alertMessages s"
      by (auto simp: buildResult_def split: sum.splits prod.splits)
    from deriveAlerts_level [OF d]
    show "alertLevel s \<in> {''normal'', ''warning'', ''severe''} \<and>
      (alertLevel s = ''normal'') = (alertMessages s = [])"
      unfolding s .
  qed
next
  show "\<exists>s. buildResult stamp f = Inr s" by (rule buildResult_total)
qed

lemma example_build: "buildResult ''t0'' example_fetched = Inr example_reading"
  by (simp add: buildResult_def deriveAlerts_def alertKp_def alertXray_def alertProton_def
      kpValue_def orDefault_def auroraChances_def js_round_def example_fetched_def example_reading_def)

lemma getSpaceWeather_hit:
  "cacheHit c forceRefresh now \<Longrightarrow> cachedSpaceWeather c = Some s \<Longrightarrow>
     getSpaceWeather c forceRefresh now stamp up = (c, Reading s, False)"
  by (simp add: getSpaceWeather_def)

lemma getSpaceWeather_miss_ok:
  "\<not> cacheHit c forceRefresh now \<Longrightarrow> buildResult stamp f = Inr result \<Longrightarrow>
     getSpaceWeather c forceRefresh now stamp (Inr f) =
       (\<lparr> cachedSpaceWeather = Some result, cacheTime = now \<rparr>, Reading result, True)"
  by (simp add: getSpaceWeather_def)

lemma getSpaceWeather_miss_thrown:
  "\<not> cacheHit c forceRefresh now \<Longrightarrow>
     getSpaceWeather c forceRefresh now stamp (Inl err) = (c, Failed err stamp, True)"
  by (simp add: getSpaceWeather_def)

lemma getSpaceWeather_fetched:
  "snd (snd (getSpaceWeather c forceRefresh now stamp up)) = (\<not> cacheHit c forceRefresh now)"
  by (auto simp: getSpaceWeather_def cacheHit_def split: option.splits sum.splits)

lemma getSpaceWeather_cache_kept:
  "cacheHit c forceRefresh now \<Longrightarrow> fst (getSpaceWeather c forceRefresh now stamp up) = c"
  by (auto simp: getSpaceWeather_def cacheHit_def split: option.splits sum.splits)

lemma getSpaceWeatherSeq_hits:
  "cachedSpaceWeather c = Some s \<Longrightarrow>
   \<forall>r \<in> set rs. \<not> rc_force r \<and> rc_now r - cacheTime c < CACHE_DURATION \<Longrightarrow>
     getSpaceWeatherSeq c rs = (c, map (\<lambda>r. (Reading s, False)) rs)"
proof (induction rs)
  case Nil
  then show ?case by simp
next
  case (Cons r rs)
  then have "cacheHit c (rc_force r) (rc_now r)"
    by (simp add: cacheHit_def)
  with Cons.prems(1)
  have "getSpaceWeather c (rc_force r) (rc_now r) (rc_iso r) (rc_up r) = (c, Reading s, False)"
    by (simp add: getSpaceWeather_hit)
  moreover have "getSpaceWeatherSeq c rs = (c, map (\<lambda>r. (Reading s, False)) rs)"
    using Cons by simp
  ultimately show ?case by simp
qed

text \<open>
  C3. While a reading is cached, every call without \<open>forceRefresh\<close> whose clock is less than
  60 seconds past \<open>cacheTime\<close> calls no fetcher, returns the cached reading itself and
  leaves the cache as it is, however many such calls are made. A call reaches the fetchers
  exactly when \<open>forceRefresh\<close> is set, nothing is cached, or the age is 60 seconds or more;
  when the fetchers resolve, such a call stores the reading it built together with the
  time of the call.
\<close>

theorem cache_serves_reads_within_ttl:
  "(cachedSpaceWeather c = Some s \<and>
      (\<forall>r \<in> set rs. \<not> rc_force r \<and> rc_now r - cacheTime c < CACHE_DURATION)
      \<longrightarrow> getSpaceWeatherSeq c rs = (c, map (\<lambda>r. (Reading s, False)) rs))
   \<and> snd (snd (getSpaceWeather c forceRefresh now stamp up)) =
       (forceRefresh \<or> cachedSpaceWeather c = None \<or> now - cacheTime c \<ge> CACHE_DURATION)
   \<and> (forceRefresh \<or> cachedSpaceWeather c = None \<or> now - cacheTime c \<ge> CACHE_DURATION
      \<longrightarrow> (\<exists>result. buildResult stamp f = Inr result \<and>
            getSpaceWeather c forceRefresh now stamp (Inr f) =
              (\<lparr> cachedSpaceWeather = Some result, cacheTime = now \<rparr>, Reading result, True)))"
proof (intro conjI impI)
  assume "cachedSpaceWeather c = Some s \<and>
      (\<forall>r \<in> set rs. \<not> rc_force r \<and> rc_now r - cacheTime c < CACHE_DURATION)"
  then show "getSpaceWeatherSeq c rs = (c, map (\<lambda>r. (Reading s, False)) rs)"
    using getSpaceWeatherSeq_hits by blast
next
  show "snd (snd (getSpaceWeather c forceRefresh now stamp up)) =
       (forceRefresh \<or> cachedSpaceWeather c = None \<or> now - cacheTime c \<ge> CACHE_DURATION)"
    by (auto simp: getSpaceWeather_fetched cacheHit_def)
next
  assume "forceRefresh \<or> cachedSpaceWeather c = None \<or> now - cacheTime c \<ge> CACHE_DURATION"
  then have miss: "\<not> cacheHit c forceRefresh now"
    by (auto simp: cacheHit_def)
  obtain result where "buildResult stamp f = Inr result"
    using buildResult_total by blast
  with miss show "\<exists>result. buildResult stamp f = Inr result \<and>
            getSpaceWeather c forceRefresh now stamp (Inr f) =
              (\<lparr> cachedSpaceWeather = Some result, cacheTime = now \<rparr>, Reading result, True)"
    using getSpaceWeather_miss_ok by blast
qed

theorem cache_serves_reads_within_ttl_witness:
  "getSpaceWeatherSeq example_cache
       [\<lparr> rc_force = False, rc_now = 1010000, rc_iso = ''t1'', rc_up = Inl (Thrown ''down'') \<rparr>,
        \<lparr> rc_force = False, rc_now = 1059999, rc_iso = ''t2'', rc_up = Inr example_fetched \<rparr>]
     = (example_cache, [(Reading example_reading, False), (Reading example_reading, False)])
   \<and> snd (snd (getSpaceWeather example_cache False 1060000 ''t0'' (Inr example_fetched)))
   \<and> getSpaceWeather example_cache False 1060000 ''t0'' (Inr example_fetched) =
       (\<lparr> cachedSpaceWeather = Some example_reading, cacheTime = 1060000 \<rparr>,
        Reading example_reading, True)"
  using cache_serves_reads_within_ttl [of example_cache example_reading
      "[\<lparr> rc_force = False, rc_now = 1010000, rc_iso = ''t1'', rc_up = Inl (Thrown ''down'') \<rparr>,
        \<lparr> rc_force = False, rc_now = 1059999, rc_iso = ''t2'', rc_up = Inr example_fetched \<rparr>]"
      False 1060000 "''t0''" "Inr example_fetched" example_fetched]
  by (simp add: example_cache_def CACHE_DURATION_def example_build)

text \<open>
  C4. When awaiting the fetchers throws, \<open>getSpaceWeather\<close> returns the sentinel
  \<open>{success: false, error, timestamp}\<close> as an ordinary value, and the cached reading and
  its time are what they were before the call.
\<close>

theorem aggregation_failure_keeps_cache:
  "fst (getSpaceWeather c forceRefresh now stamp (Inl err)) = c
   \<and> (forceRefresh \<or> cachedSpaceWeather c = None \<or> now - cacheTime c \<ge> CACHE_DURATION
      \<longrightarrow> getSpaceWeather c forceRefresh now stamp (Inl err) = (c, Failed err stamp, True))"
  by (auto simp: getSpaceWeather_def cacheHit_def split: option.splits)

theorem aggregation_failure_keeps_cache_witness:
  "fst (getSpaceWeather example_cache True 1010000 ''t1'' (Inl (Thrown ''down''))) = example_cache
   \<and> getSpaceWeather example_cache True 1010000 ''t1'' (Inl (Thrown ''down'')) =
       (example_cache, Failed (Thrown ''down'') ''t1'', True)"
  using aggregation_failure_keeps_cache [of example_cache True 1010000 "''t1''" "Thrown ''down''"]
  by simp

theorem alert_level_normal_iff_no_messages_witness:
  "getSpaceWeather initial_cache False 1000000 ''t0'' (Inr example_fetched) =
     (example_cache, Reading example_reading, True)
   \<and> alertLevel example_reading \<in> {''normal'', ''warning'', ''severe''}
   \<and> (alertLevel example_reading = ''normal'') = (alertMessages example_reading = [])"
proof -
  have g: "getSpaceWeather initial_cache False 1000000 ''t0'' (Inr example_fetched) =
     (example_cache, Reading example_reading, True)"
    by (simp add: getSpaceWeather_def example_build cacheHit_def initial_cache_def
        example_cache_def)
  from alert_level_normal_iff_no_messages [of initial_cache False 1000000 "''t0''"
      example_fetched example_cache example_reading] g
  show ?thesis by blast
qed


text \<open>
  C9 (as amended). When \<open>LINE_CHANNEL_SECRET\<close> is not configured (unset or empty),
  \<open>validateLineSignature\<close> returns true for every body and signature, absent or arbitrary,
  so the webhook never answers "invalid signature". The events of the request are handled
  without verification exactly when \<open>LINE_CHANNEL_ACCESS_TOKEN\<close> is configured; without
  the token the handler answers "OK (no token configured)" and handles no event.
\<close>

theorem unsigned_webhook_passes_signature_gate:
  "\<not> configured secret \<Longrightarrow>
     validateLineSignature hmac secret body signature
     \<and> webhook hmac token secret body signature events \<noteq> InvalidSignature
     \<and> (webhook hmac token secret body signature events = EventsHandled events) = configured token
     \<and> (webhook hmac token secret body signature events = OkNoTokenConfigured) = (\<not> configured token)"
  by (simp add: validateLineSignature_def webhook_def)

theorem unsigned_webhook_passes_signature_gate_witness:
  "\<not> configured None
   \<and> validateLineSignature example_hmac None ''{}'' (Some ''forged'')
   \<and> webhook example_hmac (Some ''token'') None ''{}'' (Some ''forged'') [''follow'']
       = EventsHandled [''follow'']"
  using unsigned_webhook_passes_signature_gate [of None example_hmac "''{}''" "Some ''forged''"
      "Some ''token''" "[''follow'']"]
  by (simp add: configured_def)

theorem unsigned_webhook_without_token_counterexample:
  "\<not> configured None
   \<and> validateLineSignature example_hmac None ''{}'' (Some ''forged'')
   \<and> webhook example_hmac None None ''{}'' (Some ''forged'') [''follow'']
       = OkNoTokenConfigured
   \<and> webhook example_hmac None None ''{}'' (Some ''forged'') [''follow'']
       \<noteq> EventsHandled [''follow'']"
  by (simp add: configured_def validateLineSignature_def webhook_def)

lemma linePush_log:
  "linePush token d userId messages io = (d', call) \<Longrightarrow>
     hasPushLog d' = hasPushLog d \<and>
     logLength d' = logLength d + (if hasPushLog d \<and> pc_returned call then 1 else 0)"
  by (auto simp: linePush_def hasPushLog_def logLength_def Let_def
      split: if_splits http_outcome.splits option.splits)

lemma linePush_returned:
  "linePush token d userId messages io = (d', call) \<Longrightarrow>
     pc_userId call = userId \<and>
     pc_returned call =
       (configured token \<and> pio_http io = HttpOk \<and> (hasPushLog d \<longrightarrow> pio_logOk io)) \<and>
     (pc_request call \<noteq> None) = configured token"
  by (auto simp: linePush_def hasPushLog_def Let_def
      split: if_splits http_outcome.splits option.splits)

lemma pushEach_log:
  "pushEach token d users msg io i = (d', calls) \<Longrightarrow>
     length calls = length users
     \<and> logLength d' =
         logLength d + (if hasPushLog d then length (filter pc_returned calls) else 0)"
proof (induction users arbitrary: d i d' calls)
  case Nil
  then show ?case by simp
next
  case (Cons user users)
  obtain d1 call where p: "linePush token d (sub_userId user) msg (io i) = (d1, call)"
    by (cases "linePush token d (sub_userId user) msg (io i)")
  obtain d2 rest where r: "pushEach token d1 users msg io (Suc i) = (d2, rest)"
    by (cases "pushEach token d1 users msg io (Suc i)")
  from Cons.prems p r have eq: "d' = d2" "calls = call # rest" by simp_all
  from linePush_log [OF p] have h: "hasPushLog d1 = hasPushLog d"
    and l: "logLength d1 = logLength d + (if hasPushLog d \<and> pc_returned call then 1 else 0)"
    by simp_all
  from Cons.IH [OF r] have "length rest = length users"
    and "logLength d2 =
         logLength d1 + (if hasPushLog d1 then length (filter pc_returned rest) else 0)"
    by simp_all
  with eq h l show ?case by simp
qed

theorem failed_push_leaves_no_record_counterexample:
  "pc_request (snd (linePush (Some ''token'') (Some example_doc) ''U1''
       (Plain (Literal ''hello'')) push_rejected))
     = Some (''U1'', [TextSegment (Literal ''hello'')])
   \<and> logLength (fst (linePush (Some ''token'') (Some example_doc) ''U1''
       (Plain (Literal ''hello'')) push_rejected)) = logLength (Some example_doc)"
  by (simp add: linePush_def configured_def push_rejected_def example_doc_def logLength_def
      Let_def)

lemma iss_cases:
  "issRow now i = Inl TypeError \<and> (lat i = None \<or> lon i = None \<or> altitude i = None \<or> velocity i = None)
   \<or> (\<exists>la lo al ve. lat i = Some la \<and> lon i = Some lo \<and> altitude i = Some al \<and> velocity i = Some ve
        \<and> issRow now i = Inr (IssRow now la lo al ve (location i)))"
  by (auto simp: issRow_def split: option.splits)

lemma recordPass_failed:
  "andThen (recordSolarWind now (Failed err t) w1)
     (andThen (recordKp now (Failed err t) w2)
       (andThen (recordIss now (Failed err t) w3) (recordRadiation now (Failed err t) w4)))
     (dc, []) = ((dc, []), None)"
  by (simp add: andThen_def recordSolarWind_def recordKp_def recordIss_def recordRadiation_def)



lemma rowCount_Some:
  "rowCount (Some dc) cat = (case sheetOf dc cat of None \<Rightarrow> 0 | Some rows \<Rightarrow> length rows)"
  by (simp add: rowCount_def)

lemma writeFails_cong:
  "(\<And>c. (sheetOf dc1 c = None) = (sheetOf dc c = None)) \<Longrightarrow>
     writeFails dc1 ok data = writeFails dc ok data"
  by (rule ext) (simp add: writeFails_def)

lemma solarWind_fails:
  "writeFails dc ok (Reading s) SolarWindCategory \<Longrightarrow>
     \<exists>err. recordSolarWind now (Reading s) (ok SolarWindCategory) (dc, st) =
       ((dc, st @ [SolarWindCategory]), Some err)"
  by (auto simp: recordSolarWind_def addRow_def writeFails_def sheetOf_def
      split: option.splits if_splits)

lemma solarWind_written:
  assumes "\<not> writeFails dc ok (Reading s) SolarWindCategory"
  shows "\<exists>dc1. recordSolarWind now (Reading s) (ok SolarWindCategory) (dc, st) =
         ((dc1, st @ [SolarWindCategory]), None)
       \<and> (\<forall>c. (sheetOf dc1 c = None) = (sheetOf dc c = None))
       \<and> (\<forall>c. rowCount (Some dc1) c =
             rowCount (Some dc) c + (if c = SolarWindCategory then 1 else 0))"
proof -
  from assms obtain rows where rows: "solarWindSheet dc = Some rows" "ok SolarWindCategory"
    by (auto simp: writeFails_def sheetOf_def split: if_splits)
  let ?dc1 = "dc\<lparr> solarWindSheet := Some (rows @ [SolarWindRow now (speed (solarWind s)) (density (solarWind s)) (bz (magneticField s)) (bt (magneticField s)) (temperature (solarWind s))]) \<rparr>"
  have "recordSolarWind now (Reading s) (ok SolarWindCategory) (dc, st) = ((?dc1, st @ [SolarWindCategory]), None)"
    using rows by (simp add: recordSolarWind_def addRow_def)
  moreover have "\<forall>c. (sheetOf ?dc1 c = None) = (sheetOf dc c = None)"
    using rows by (simp add: sheetOf_def split: category.splits)
  moreover have "\<forall>c. rowCount (Some ?dc1) c =
             rowCount (Some dc) c + (if c = SolarWindCategory then 1 else 0)"
    using rows by (simp add: rowCount_def sheetOf_def split: category.splits)
  ultimately show ?thesis by blast
qed

lemma kp_fails:
  "writeFails dc ok (Reading s) KpCategory \<Longrightarrow>
     \<exists>err. recordKp now (Reading s) (ok KpCategory) (dc, st) =
       ((dc, st @ [KpCategory]), Some err)"
  by (auto simp: recordKp_def addRow_def writeFails_def sheetOf_def
      split: option.splits if_splits)

lemma kp_written:
  assumes "\<not> writeFails dc ok (Reading s) KpCategory"
  shows "\<exists>dc1. recordKp now (Reading s) (ok KpCategory) (dc, st) =
         ((dc1, st @ [KpCategory]), None)
       \<and> (\<forall>c. (sheetOf dc1 c = None) = (sheetOf dc c = None))
       \<and> (\<forall>c. rowCount (Some dc1) c =
             rowCount (Some dc) c + (if c = KpCategory then 1 else 0))"
proof -
  from assms obtain rows where rows: "kpSheet dc = Some rows" "ok KpCategory"
    by (auto simp: writeFails_def sheetOf_def split: if_splits)
  let ?dc1 = "dc\<lparr> kpSheet := Some (rows @ [KpRow now (kp (kpRecord s)) (level (kpRecord s)) (gLevel (kpRecord s))]) \<rparr>"
  have "recordKp now (Reading s) (ok KpCategory) (dc, st) = ((?dc1, st @ [KpCategory]), None)"
    using rows by (simp add: recordKp_def addRow_def)
  moreover have "\<forall>c. (sheetOf ?dc1 c = None) = (sheetOf dc c = None)"
    using rows by (simp add: sheetOf_def split: category.splits)
  moreover have "\<forall>c. rowCount (Some ?dc1) c =
             rowCount (Some dc) c + (if c = KpCategory then 1 else 0)"
    using rows by (simp add: rowCount_def sheetOf_def split: category.splits)
  ultimately show ?thesis by blast
qed

lemma iss_absent:
  "iss s = None \<Longrightarrow>
     recordIss now (Reading s) (ok IssCategory) (dc, st) = ((dc, st), None)"
  by (simp add: recordIss_def)

lemma iss_fails:
  "iss s \<noteq> None \<Longrightarrow> writeFails dc ok (Reading s) IssCategory \<Longrightarrow>
     \<exists>err. recordIss now (Reading s) (ok IssCategory) (dc, st) =
       ((dc, st @ [IssCategory]), Some err)"
  using iss_cases [of now "the (iss s)"]
  by (auto simp: recordIss_def addRow_def writeFails_def sheetOf_def issIncomplete_def
      split: option.splits if_splits)

lemma iss_written:
  assumes "iss s \<noteq> None" and "\<not> writeFails dc ok (Reading s) IssCategory"
  shows "\<exists>dc1. recordIss now (Reading s) (ok IssCategory) (dc, st) =
         ((dc1, st @ [IssCategory]), None)
       \<and> (\<forall>c. (sheetOf dc1 c = None) = (sheetOf dc c = None))
       \<and> (\<forall>c. rowCount (Some dc1) c =
             rowCount (Some dc) c + (if c = IssCategory then 1 else 0))"
proof -
  from assms obtain rows i where rows: "issSheet dc = Some rows" "ok IssCategory"
    and i: "iss s = Some i" "lat i \<noteq> None" "lon i \<noteq> None" "altitude i \<noteq> None"
      "velocity i \<noteq> None"
    by (auto simp: writeFails_def sheetOf_def issIncomplete_def split: if_splits)
  then obtain la lo al ve where row: "issRow now i = Inr (IssRow now la lo al ve (location i))"
    by (auto simp: issRow_def)
  let ?dc1 = "dc\<lparr> issSheet := Some (rows @ [IssRow now la lo al ve (location i)]) \<rparr>"
  have "recordIss now (Reading s) (ok IssCategory) (dc, st) = ((?dc1, st @ [IssCategory]), None)"
    using rows i row by (simp add: recordIss_def addRow_def)
  moreover have "\<forall>c. (sheetOf ?dc1 c = None) = (sheetOf dc c = None)"
    using rows by (simp add: sheetOf_def split: category.splits)
  moreover have "\<forall>c. rowCount (Some ?dc1) c =
             rowCount (Some dc) c + (if c = IssCategory then 1 else 0)"
    using rows by (simp add: rowCount_def sheetOf_def split: category.splits)
  ultimately show ?thesis by blast
qed

lemma radiation_fails:
  "writeFails dc ok (Reading s) RadiationCategory \<Longrightarrow>
     \<exists>err. recordRadiation now (Reading s) (ok RadiationCategory) (dc, st) =
       ((dc, st @ [RadiationCategory]), Some err)"
  by (auto simp: recordRadiation_def addRow_def writeFails_def sheetOf_def
      split: option.splits if_splits)

lemma radiation_written:
  assumes "\<not> writeFails dc ok (Reading s) RadiationCategory"
  shows "\<exists>dc1. recordRadiation now (Reading s) (ok RadiationCategory) (dc, st) =
         ((dc1, st @ [RadiationCategory]), None)
       \<and> (\<forall>c. (sheetOf dc1 c = None) = (sheetOf dc c = None))
       \<and> (\<forall>c. rowCount (Some dc1) c =
             rowCount (Some dc) c + (if c = RadiationCategory then 1 else 0))"
proof -
  from assms obtain rows where rows: "radiationSheet dc = Some rows" "ok RadiationCategory"
    by (auto simp: writeFails_def sheetOf_def split: if_splits)
  let ?dc1 = "dc\<lparr> radiationSheet := Some (rows @ [RadiationRow now (pr_flux (proton s)) (el_flux (electron s)) (sLevel (proton s))]) \<rparr>"
  have "recordRadiation now (Reading s) (ok RadiationCategory) (dc, st) = ((?dc1, st @ [RadiationCategory]), None)"
    using rows by (simp add: recordRadiation_def addRow_def)
  moreover have "\<forall>c. (sheetOf ?dc1 c = None) = (sheetOf dc c = None)"
    using rows by (simp add: sheetOf_def split: category.splits)
  moreover have "\<forall>c. rowCount (Some ?dc1) c =
             rowCount (Some dc) c + (if c = RadiationCategory then 1 else 0)"
    using rows by (simp add: rowCount_def sheetOf_def split: category.splits)
  ultimately show ?thesis by blast
qed


lemma upToFirstFailure_subset: "set (upToFirstFailure fails xs) \<subseteq> set xs"
  by (induction xs) auto

lemma andThen_finish: "andThen f (\<lambda>st. (st, None)) st = f st"
  by (auto simp: andThen_def split: prod.splits option.splits)

lemma andThen_chain:
  assumes f_fail: "\<And>dcx st. (\<forall>c. (sheetOf dcx c = None) = (sheetOf dc c = None)) \<Longrightarrow>
        writeFails dc ok data X \<Longrightarrow> \<exists>err. f (dcx, st) = ((dcx, st @ [X]), Some err)"
    and f_ok: "\<And>dcx st. (\<forall>c. (sheetOf dcx c = None) = (sheetOf dc c = None)) \<Longrightarrow>
        \<not> writeFails dc ok data X \<Longrightarrow>
        \<exists>dc1. f (dcx, st) = ((dc1, st @ [X]), None)
          \<and> (\<forall>c. (sheetOf dc1 c = None) = (sheetOf dcx c = None))
          \<and> (\<forall>c. rowCount (Some dc1) c = rowCount (Some dcx) c + (if c = X then 1 else 0))"
    and g: "\<And>dcx st dc' started caught.
        (\<forall>c. (sheetOf dcx c = None) = (sheetOf dc c = None)) \<Longrightarrow>
        g (dcx, st) = ((dc', started), caught) \<Longrightarrow>
          started = st @ upToFirstFailure (writeFails dc ok data) rest
          \<and> (caught = None) = (\<forall>c \<in> set rest. \<not> writeFails dc ok data c)
          \<and> (\<forall>c. rowCount (Some dc') c = rowCount (Some dcx) c +
                (if c \<in> set (upToFirstFailure (writeFails dc ok data) rest)
                    \<and> \<not> writeFails dc ok data c then 1 else 0))"
    and fresh: "X \<notin> set rest"
    and same: "\<forall>c. (sheetOf dcx c = None) = (sheetOf dc c = None)"
    and run: "andThen f g (dcx, st) = ((dc', started), caught)"
  shows "started = st @ upToFirstFailure (writeFails dc ok data) (X # rest)
          \<and> (caught = None) = (\<forall>c \<in> set (X # rest). \<not> writeFails dc ok data c)
          \<and> (\<forall>c. rowCount (Some dc') c = rowCount (Some dcx) c +
                (if c \<in> set (upToFirstFailure (writeFails dc ok data) (X # rest))
                    \<and> \<not> writeFails dc ok data c then 1 else 0))"
proof (cases "writeFails dc ok data X")
  case True
  from f_fail [OF same True] obtain err where "f (dcx, st) = ((dcx, st @ [X]), Some err)"
    by blast
  with run have "dc' = dcx" "started = st @ [X]" "caught = Some err"
    by (simp_all add: andThen_def)
  with True show ?thesis by auto
next
  case False
  from f_ok [OF same False] obtain dc1 where
    f1: "f (dcx, st) = ((dc1, st @ [X]), None)"
    and same1: "\<forall>c. (sheetOf dc1 c = None) = (sheetOf dcx c = None)"
    and rows1: "\<forall>c. rowCount (Some dc1) c = rowCount (Some dcx) c + (if c = X then 1 else 0)"
    by blast
  from f1 run have g1: "g (dc1, st @ [X]) = ((dc', started), caught)"
    by (simp add: andThen_def)
  from same same1 have "\<forall>c. (sheetOf dc1 c = None) = (sheetOf dc c = None)" by simp
  from g [OF this g1] have
    st: "started = (st @ [X]) @ upToFirstFailure (writeFails dc ok data) rest"
    and ca: "(caught = None) = (\<forall>c \<in> set rest. \<not> writeFails dc ok data c)"
    and ro: "\<forall>c. rowCount (Some dc') c = rowCount (Some dc1) c +
                (if c \<in> set (upToFirstFailure (writeFails dc ok data) rest)
                    \<and> \<not> writeFails dc ok data c then 1 else 0)"
    by blast+
  have notin: "X \<notin> set (upToFirstFailure (writeFails dc ok data) rest)"
    using fresh upToFirstFailure_subset [of "writeFails dc ok data" rest] by blast
  have "started = st @ upToFirstFailure (writeFails dc ok data) (X # rest)"
    using st False by simp
  moreover have "(caught = None) = (\<forall>c \<in> set (X # rest). \<not> writeFails dc ok data c)"
    using ca False by simp
  moreover have "\<forall>c. rowCount (Some dc') c = rowCount (Some dcx) c +
                (if c \<in> set (upToFirstFailure (writeFails dc ok data) (X # rest))
                    \<and> \<not> writeFails dc ok data c then 1 else 0)"
    using ro rows1 False notin by auto
  ultimately show ?thesis by blast
qed


lemma recordPass_reading:
  assumes run: "andThen (recordSolarWind now (Reading s) (ok SolarWindCategory))
     (andThen (recordKp now (Reading s) (ok KpCategory))
       (andThen (recordIss now (Reading s) (ok IssCategory))
         (recordRadiation now (Reading s) (ok RadiationCategory))))
     (dc, []) = ((dc', started), caught)"
  shows "started = upToFirstFailure (writeFails dc ok (Reading s)) (presentCategories (Reading s))
     \<and> (caught = None) =
         (\<forall>c \<in> set (presentCategories (Reading s)). \<not> writeFails dc ok (Reading s) c)
     \<and> (\<forall>c. rowCount (Some dc') c = rowCount (Some dc) c +
           (if c \<in> set started \<and> \<not> writeFails dc ok (Reading s) c then 1 else 0))"
proof -
  have solarWind_f: "\<exists>err. recordSolarWind now (Reading s) (ok SolarWindCategory) (dcx, st) =
        ((dcx, st @ [SolarWindCategory]), Some err)"
    if "(\<forall>c. (sheetOf dcx c = None) = (sheetOf dc c = None))" "writeFails dc ok (Reading s) SolarWindCategory" for dcx st
    using solarWind_fails [of dcx ok s now st] that writeFails_cong [of dcx dc ok "Reading s"]
    by simp
  have solarWind_w: "\<exists>dc1. recordSolarWind now (Reading s) (ok SolarWindCategory) (dcx, st) = ((dc1, st @ [SolarWindCategory]), None)
          \<and> (\<forall>c. (sheetOf dc1 c = None) = (sheetOf dcx c = None))
          \<and> (\<forall>c. rowCount (Some dc1) c = rowCount (Some dcx) c + (if c = SolarWindCategory then 1 else 0))"
    if "(\<forall>c. (sheetOf dcx c = None) = (sheetOf dc c = None))" "\<not> writeFails dc ok (Reading s) SolarWindCategory" for dcx st
    using solarWind_written [of dcx ok s now st] that writeFails_cong [of dcx dc ok "Reading s"]
    by simp
  have kp_f: "\<exists>err. recordKp now (Reading s) (ok KpCategory) (dcx, st) =
        ((dcx, st @ [KpCategory]), Some err)"
    if "(\<forall>c. (sheetOf dcx c = None) = (sheetOf dc c = None))" "writeFails dc ok (Reading s) KpCategory" for dcx st
    using kp_fails [of dcx ok s now st] that writeFails_cong [of dcx dc ok "Reading s"]
    by simp
  have kp_w: "\<exists>dc1. recordKp now (Reading s) (ok KpCategory) (dcx, st) = ((dc1, st @ [KpCategory]), None)
          \<and> (\<forall>c. (sheetOf dc1 c = None) = (sheetOf dcx c = None))
          \<and> (\<forall>c. rowCount (Some dc1) c = rowCount (Some dcx) c + (if c = KpCategory then 1 else 0))"
    if "(\<forall>c. (sheetOf dcx c = None) = (sheetOf dc c = None))" "\<not> writeFails dc ok (Reading s) KpCategory" for dcx st
    using kp_written [of dcx ok s now st] that writeFails_cong [of dcx dc ok "Reading s"]
    by simp
  have radiation_f: "\<exists>err. recordRadiation now (Reading s) (ok RadiationCategory) (dcx, st) =
        ((dcx, st @ [RadiationCategory]), Some err)"
    if "(\<forall>c. (sheetOf dcx c = None) = (sheetOf dc c = None))" "writeFails dc ok (Reading s) RadiationCategory" for dcx st
    using radiation_fails [of dcx ok s now st] that writeFails_cong [of dcx dc ok "Reading s"]
    by simp
  have radiation_w: "\<exists>dc1. recordRadiation now (Reading s) (ok RadiationCategory) (dcx, st) = ((dc1, st @ [RadiationCategory]), None)
          \<and> (\<forall>c. (sheetOf dc1 c = None) = (sheetOf dcx c = None))
          \<and> (\<forall>c. rowCount (Some dc1) c = rowCount (Some dcx) c + (if c = RadiationCategory then 1 else 0))"
    if "(\<forall>c. (sheetOf dcx c = None) = (sheetOf dc c = None))" "\<not> writeFails dc ok (Reading s) RadiationCategory" for dcx st
    using radiation_written [of dcx ok s now st] that writeFails_cong [of dcx dc ok "Reading s"]
    by simp
  have rad: "started = st @ upToFirstFailure (writeFails dc ok (Reading s)) [RadiationCategory]
          \<and> (caught = None) = (\<forall>c \<in> set [RadiationCategory]. \<not> writeFails dc ok (Reading s) c)
          \<and> (\<forall>c. rowCount (Some dc') c = rowCount (Some dcx) c +
                (if c \<in> set (upToFirstFailure (writeFails dc ok (Reading s)) [RadiationCategory])
                    \<and> \<not> writeFails dc ok (Reading s) c then 1 else 0))"
    if "(\<forall>c. (sheetOf dcx c = None) = (sheetOf dc c = None))"
      "recordRadiation now (Reading s) (ok RadiationCategory) (dcx, st) = ((dc', started), caught)"
    for dcx st dc' started caught
  proof (rule andThen_chain [where f = "recordRadiation now (Reading s) (ok RadiationCategory)"
        and g = "\<lambda>st. (st, None)" and rest = "[]"])
    show "andThen (recordRadiation now (Reading s) (ok RadiationCategory)) (\<lambda>st. (st, None))
        (dcx, st) = ((dc', started), caught)"
      using that(2) by (simp add: andThen_finish)
  qed (use that radiation_f radiation_w in auto)
  have tail: "started = st @ upToFirstFailure (writeFails dc ok (Reading s)) ((if iss s = None then [] else [IssCategory]) @ [RadiationCategory])
          \<and> (caught = None) = (\<forall>c \<in> set ((if iss s = None then [] else [IssCategory]) @ [RadiationCategory]). \<not> writeFails dc ok (Reading s) c)
          \<and> (\<forall>c. rowCount (Some dc') c = rowCount (Some dcx) c +
                (if c \<in> set (upToFirstFailure (writeFails dc ok (Reading s)) ((if iss s = None then [] else [IssCategory]) @ [RadiationCategory]))
                    \<and> \<not> writeFails dc ok (Reading s) c then 1 else 0))"
    if "(\<forall>c. (sheetOf dcx c = None) = (sheetOf dc c = None))"
      "andThen (recordIss now (Reading s) (ok IssCategory))
         (recordRadiation now (Reading s) (ok RadiationCategory)) (dcx, st)
       = ((dc', started), caught)"
    for dcx st dc' started caught
  proof (cases "iss s = None")
    case True
    then have "recordRadiation now (Reading s) (ok RadiationCategory) (dcx, st)
        = ((dc', started), caught)"
      using that(2) by (simp add: andThen_def iss_absent)
    from rad [OF that(1) this] True show ?thesis by simp
  next
    case issP: False
    have iss_f: "\<exists>err. recordIss now (Reading s) (ok IssCategory) (dcx, st) =
          ((dcx, st @ [IssCategory]), Some err)"
      if "(\<forall>c. (sheetOf dcx c = None) = (sheetOf dc c = None))" "writeFails dc ok (Reading s) IssCategory" for dcx st
      using iss_fails [of s dcx ok now st] issP that writeFails_cong [of dcx dc ok "Reading s"]
      by simp
    have iss_w: "\<exists>dc1. recordIss now (Reading s) (ok IssCategory) (dcx, st) = ((dc1, st @ [IssCategory]), None)
            \<and> (\<forall>c. (sheetOf dc1 c = None) = (sheetOf dcx c = None))
            \<and> (\<forall>c. rowCount (Some dc1) c = rowCount (Some dcx) c + (if c = IssCategory then 1 else 0))"
      if "(\<forall>c. (sheetOf dcx c = None) = (sheetOf dc c = None))" "\<not> writeFails dc ok (Reading s) IssCategory" for dcx st
      using iss_written [of s dcx ok now st] issP that writeFails_cong [of dcx dc ok "Reading s"]
      by simp
    have "started = st @ upToFirstFailure (writeFails dc ok (Reading s)) (IssCategory # [RadiationCategory])
          \<and> (caught = None) = (\<forall>c \<in> set (IssCategory # [RadiationCategory]). \<not> writeFails dc ok (Reading s) c)
          \<and> (\<forall>c. rowCount (Some dc') c = rowCount (Some dcx) c +
                (if c \<in> set (upToFirstFailure (writeFails dc ok (Reading s)) (IssCategory # [RadiationCategory]))
                    \<and> \<not> writeFails dc ok (Reading s) c then 1 else 0))"
      by (rule andThen_chain [where f = "recordIss now (Reading s) (ok IssCategory)"
            and g = "recordRadiation now (Reading s) (ok RadiationCategory)", OF _ _ _ _ that])
        (use iss_f iss_w rad in auto)
    with issP show ?thesis by simp
  qed
  have tail2: "started = st @ upToFirstFailure (writeFails dc ok (Reading s)) (KpCategory # ((if iss s = None then [] else [IssCategory]) @ [RadiationCategory]))
          \<and> (caught = None) = (\<forall>c \<in> set (KpCategory # (if iss s = None then [] else [IssCategory]) @ [RadiationCategory]). \<not> writeFails dc ok (Reading s) c)
          \<and> (\<forall>c. rowCount (Some dc') c = rowCount (Some dcx) c +
                (if c \<in> set (upToFirstFailure (writeFails dc ok (Reading s)) (KpCategory # (if iss s = None then [] else [IssCategory]) @ [RadiationCategory]))
                    \<and> \<not> writeFails dc ok (Reading s) c then 1 else 0))"
    if "(\<forall>c. (sheetOf dcx c = None) = (sheetOf dc c = None))"
      "andThen (recordKp now (Reading s) (ok KpCategory))
         (andThen (recordIss now (Reading s) (ok IssCategory))
           (recordRadiation now (Reading s) (ok RadiationCategory))) (dcx, st)
       = ((dc', started), caught)"
    for dcx st dc' started caught
    by (rule andThen_chain [where f = "recordKp now (Reading s) (ok KpCategory)", OF _ _ _ _ that])
      (use kp_f kp_w tail in auto)
  have "started = [] @ upToFirstFailure (writeFails dc ok (Reading s)) (SolarWindCategory # KpCategory # ((if iss s = None then [] else [IssCategory]) @ [RadiationCategory]))
          \<and> (caught = None) = (\<forall>c \<in> set (SolarWindCategory # KpCategory # (if iss s = None then [] else [IssCategory]) @ [RadiationCategory]). \<not> writeFails dc ok (Reading s) c)
          \<and> (\<forall>c. rowCount (Some dc') c = rowCount (Some dc) c +
                (if c \<in> set (upToFirstFailure (writeFails dc ok (Reading s)) (SolarWindCategory # KpCategory # (if iss s = None then [] else [IssCategory]) @ [RadiationCategory]))
                    \<and> \<not> writeFails dc ok (Reading s) c then 1 else 0))"
    by (rule andThen_chain [where f = "recordSolarWind now (Reading s) (ok SolarWindCategory)",
          OF _ _ _ _ _ run])
      (use solarWind_f solarWind_w tail2 in auto)
  then show ?thesis
    by (simp add: presentCategories_def)
qed


lemma example_forced_read:
  "getSpaceWeather example_cache True now ''t0'' (Inr example_fetched) =
     (\<lparr> cachedSpaceWeather = Some example_reading, cacheTime = now \<rparr>,
      Reading example_reading, True)"
  by (simp add: getSpaceWeather_def cacheHit_def example_build)

text \<open>
  C8 (as amended). The recording pass writes the categories whose sub-record is present, in
  the order solar wind, Kp, ISS, radiation, inside one \<open>try\<close> block. A category whose
  sub-record is absent is skipped silently and does not fail the pass. The first write
  that fails is caught (logged) and ends the pass: the categories started are those up to
  and including the first failing one, later categories are not attempted, and each
  category started without failing has exactly one new row.
\<close>

theorem recording_stops_at_first_failed_write:
  assumes "recordData c (Some dc) e = (c', d', out)"
    and "getSpaceWeather c True (re_cacheNow e) (re_stamp e) (re_up e) = (c1, data, b)"
  shows "rd_started out =
        upToFirstFailure (writeFails dc (re_writeOk e) data) (presentCategories data)
     \<and> (rd_caught out = None) =
         (\<forall>cat \<in> set (presentCategories data). \<not> writeFails dc (re_writeOk e) data cat)
     \<and> (\<forall>cat. rowCount d' cat = rowCount (Some dc) cat +
           (if cat \<in> set (rd_started out) \<and> \<not> writeFails dc (re_writeOk e) data cat
            then 1 else 0))"
proof (cases data)
  case (Failed err t)
  with assms have "d' = Some dc" "rd_started out = []" "rd_caught out = None"
    by (auto simp: recordData_def recordPass_failed)
  with Failed show ?thesis by (simp add: presentCategories_def)
next
  case (Reading s)
  obtain dc1 started caught where pass:
    "andThen (recordSolarWind (re_now e) (Reading s) (re_writeOk e SolarWindCategory))
       (andThen (recordKp (re_now e) (Reading s) (re_writeOk e KpCategory))
         (andThen (recordIss (re_now e) (Reading s) (re_writeOk e IssCategory))
           (recordRadiation (re_now e) (Reading s) (re_writeOk e RadiationCategory))))
       (dc, []) = ((dc1, started), caught)"
    by (metis surj_pair)
  with assms Reading have "d' = Some dc1" "rd_started out = started" "rd_caught out = caught"
    by (auto simp: recordData_def)
  with recordPass_reading [OF pass] Reading show ?thesis by simp
qed

theorem recording_stops_at_first_failed_write_witness:
  "recordData example_cache (Some example_doc)
       (example_record_env\<lparr> re_writeOk := (\<lambda>cat. cat \<noteq> KpCategory) \<rparr>)
     = (\<lparr> cachedSpaceWeather = Some example_reading, cacheTime = 2000000 \<rparr>,
        Some (example_doc\<lparr> solarWindSheet := Some [SolarWindRow ''t5'' 400 4 0 5 100000] \<rparr>),
        \<lparr> rd_started = [SolarWindCategory, KpCategory],
          rd_caught = Some (Thrown ''addRow'') \<rparr>)
   \<and> [SolarWindCategory, KpCategory] =
        upToFirstFailure (writeFails example_doc (\<lambda>cat. cat \<noteq> KpCategory)
          (Reading example_reading)) (presentCategories (Reading example_reading))
   \<and> presentCategories (Reading example_reading) =
        [SolarWindCategory, KpCategory, RadiationCategory]"
proof -
  have run: "recordData example_cache (Some example_doc)
       (example_record_env\<lparr> re_writeOk := (\<lambda>cat. cat \<noteq> KpCategory) \<rparr>)
     = (\<lparr> cachedSpaceWeather = Some example_reading, cacheTime = 2000000 \<rparr>,
        Some (example_doc\<lparr> solarWindSheet := Some [SolarWindRow ''t5'' 400 4 0 5 100000] \<rparr>),
        \<lparr> rd_started = [SolarWindCategory, KpCategory],
          rd_caught = Some (Thrown ''addRow'') \<rparr>)"
    by (simp add: recordData_def example_record_env_def example_forced_read andThen_def
        recordSolarWind_def recordKp_def addRow_def example_doc_def example_reading_def)
  have read: "getSpaceWeather example_cache True
      (re_cacheNow (example_record_env\<lparr> re_writeOk := (\<lambda>cat. cat \<noteq> KpCategory) \<rparr>))
      (re_stamp (example_record_env\<lparr> re_writeOk := (\<lambda>cat. cat \<noteq> KpCategory) \<rparr>))
      (re_up (example_record_env\<lparr> re_writeOk := (\<lambda>cat. cat \<noteq> KpCategory) \<rparr>))
     = (\<lparr> cachedSpaceWeather = Some example_reading, cacheTime = 2000000 \<rparr>,
        Reading example_reading, True)"
    by (simp add: example_record_env_def example_forced_read)
  have "presentCategories (Reading example_reading) =
        [SolarWindCategory, KpCategory, RadiationCategory]"
    by (simp add: presentCategories_def example_reading_def)
  with recording_stops_at_first_failed_write [OF run read] run show ?thesis by simp
qed

theorem failed_write_blocks_later_categories_counterexample:
  "rd_started (snd (snd (recordData example_cache (Some example_doc) example_record_env)))
     = [SolarWindCategory]
   \<and> rd_caught (snd (snd (recordData example_cache (Some example_doc) example_record_env)))
     = Some (Thrown ''addRow'')
   \<and> fst (snd (recordData example_cache (Some example_doc) example_record_env))
     = Some example_doc"
  by (simp add: recordData_def example_record_env_def example_forced_read andThen_def
      recordSolarWind_def addRow_def example_doc_def)











lemma linePush_subscribers:
  "linePush token d userId messages io = (d', call) \<Longrightarrow>
     getSubscribersByType d' readOk type = getSubscribersByType d readOk type
     \<and> pc_userId call = userId"
  by (auto simp: linePush_def getSubscribersByType_def Let_def
      split: if_splits http_outcome.splits option.splits)

lemma pushEach_subscribers:
  "pushEach token d users msg io i = (d', calls) \<Longrightarrow>
     getSubscribersByType d' readOk type = getSubscribersByType d readOk type
     \<and> map pc_userId calls = map sub_userId users"
proof (induction users arbitrary: d i d' calls)
  case Nil
  then show ?case by simp
next
  case (Cons user users)
  obtain d1 call where p: "linePush token d (sub_userId user) msg (io i) = (d1, call)"
    by (cases "linePush token d (sub_userId user) msg (io i)")
  obtain d2 rest where r: "pushEach token d1 users msg io (Suc i) = (d2, rest)"
    by (cases "pushEach token d1 users msg io (Suc i)")
  from Cons.prems p r have eq: "d' = d2" "calls = call # rest" by simp_all
  from linePush_subscribers [OF p] Cons.IH [OF r] eq show ?case by simp
qed

lemma checkAlerts_failed:
  "getSpaceWeather c True (ae_cacheNow e) (ae_stamp e) (ae_up e) = (c1, Failed err t, b) \<Longrightarrow>
     checkAlerts token la c d e =
       (la, c1, d, \<lparr> kpCalls = [], kpSent = False, flareCalls = [], flareSent = False \<rparr>)"
  by (simp add: checkAlerts_def)

lemma checkAlerts_reading:
  assumes w: "getSpaceWeather c True (ae_cacheNow e) (ae_stamp e) (ae_up e) = (c1, Reading s, b)"
    and r: "checkAlerts token la c d e = (la', c', d', out)"
  shows "kpSent out =
        (kp (kpRecord s) \<ge> 5 \<and> ae_now e - last_kp la > ALERT_COOLDOWN
         \<and> getSubscribersByType d (ae_auroraReadOk e) ''aurora'' \<noteq> [])
    \<and> flareSent out =
        (flareClass (xray s) = ''X'' \<and> ae_now e - last_flare la > ALERT_COOLDOWN
         \<and> getSubscribersByType d (ae_flareReadOk e) ''flare'' \<noteq> [])
    \<and> map pc_userId (kpCalls out) =
        (if kpSent out
         then map sub_userId (getSubscribersByType d (ae_auroraReadOk e) ''aurora'') else [])
    \<and> map pc_userId (flareCalls out) =
        (if flareSent out
         then map sub_userId (getSubscribersByType d (ae_flareReadOk e) ''flare'') else [])
    \<and> la' = la\<lparr> last_kp := (if kpSent out then ae_now e else last_kp la),
                   last_flare := (if flareSent out then ae_now e else last_flare la) \<rparr>"
proof -
  define now where "now = ae_now e"
  define subsA where "subsA = getSubscribersByType d (ae_auroraReadOk e) ''aurora''"
  define kpC where "kpC \<longleftrightarrow>
    kp (kpRecord s) \<ge> 5 \<and> now - last_kp la > ALERT_COOLDOWN \<and> subsA \<noteq> []"
  define block1 where "block1 =
    (if kp (kpRecord s) \<ge> 5 \<and> now - last_kp la > ALERT_COOLDOWN then
       let subscribers = getSubscribersByType d (ae_auroraReadOk e) ''aurora'' in
       if length subscribers > 0 then
         (case pushEach token d subscribers (Plain (AuroraAlertText s)) (ae_auroraPush e) 0 of
            (d', calls) \<Rightarrow> (la\<lparr> last_kp := now \<rparr>, d', calls, True))
       else (la, d, [], False)
     else (la, d, [], False))"
  obtain la1 d1 calls1 sent1 where b1: "block1 = (la1, d1, calls1, sent1)"
    by (cases block1) auto
  have f1: "sent1 = kpC
      \<and> la1 = la\<lparr> last_kp := (if kpC then now else last_kp la) \<rparr>
      \<and> map pc_userId calls1 = (if kpC then map sub_userId subsA else [])
      \<and> getSubscribersByType d1 (ae_flareReadOk e) ''flare''
          = getSubscribersByType d (ae_flareReadOk e) ''flare''"
  proof (cases kpC)
    case True
    obtain dA callsA where pA:
      "pushEach token d subsA (Plain (AuroraAlertText s)) (ae_auroraPush e) 0 = (dA, callsA)"
      by (cases "pushEach token d subsA (Plain (AuroraAlertText s)) (ae_auroraPush e) 0")
    with True b1 have "la1 = la\<lparr> last_kp := now \<rparr>" "d1 = dA" "calls1 = callsA" "sent1"
      by (simp_all add: block1_def kpC_def subsA_def)
    with True pushEach_subscribers [OF pA, of "ae_flareReadOk e" "''flare''"] show ?thesis
      by simp
  next
    case False
    with b1 have "la1 = la" "d1 = d" "calls1 = []" "\<not> sent1"
      by (auto simp: block1_def kpC_def subsA_def split: if_splits)
    with False show ?thesis by simp
  qed
  define subsF where "subsF = getSubscribersByType d (ae_flareReadOk e) ''flare''"
  define flC where "flC \<longleftrightarrow>
    flareClass (xray s) = ''X'' \<and> now - last_flare la > ALERT_COOLDOWN \<and> subsF \<noteq> []"
  define block2 where "block2 =
    (if flareClass (xray s) = ''X'' \<and> now - last_flare la1 > ALERT_COOLDOWN then
       let subscribers = getSubscribersByType d1 (ae_flareReadOk e) ''flare'' in
       if length subscribers > 0 then
         (case pushEach token d1 subscribers (Plain (FlareAlertText s)) (ae_flarePush e) 0 of
            (d', calls) \<Rightarrow> (la1\<lparr> last_flare := now \<rparr>, d', calls, True))
       else (la1, d1, [], False)
     else (la1, d1, [], False))"
  obtain la2 d2 calls2 sent2 where b2: "block2 = (la2, d2, calls2, sent2)"
    by (cases block2) auto
  from f1 have lf: "last_flare la1 = last_flare la"
    and sf: "getSubscribersByType d1 (ae_flareReadOk e) ''flare'' = subsF"
    by (simp_all add: subsF_def)
  have f2: "sent2 = flC
      \<and> la2 = la1\<lparr> last_flare := (if flC then now else last_flare la) \<rparr>
      \<and> map pc_userId calls2 = (if flC then map sub_userId subsF else [])"
  proof (cases flC)
    case True
    obtain dF callsF where pF:
      "pushEach token d1 subsF (Plain (FlareAlertText s)) (ae_flarePush e) 0 = (dF, callsF)"
      by (cases "pushEach token d1 subsF (Plain (FlareAlertText s)) (ae_flarePush e) 0")
    with True b2 lf sf have "la2 = la1\<lparr> last_flare := now \<rparr>" "calls2 = callsF" "sent2"
      by (simp_all add: block2_def flC_def)
    with True pushEach_subscribers [OF pF] show ?thesis
      by simp
  next
    case False
    with b2 lf sf have "la2 = la1" "calls2 = []" "\<not> sent2"
      by (auto simp: block2_def flC_def split: if_splits)
    with False lf show ?thesis by simp
  qed
  have "checkAlerts token la c d e =
      (la2, c1, d2, \<lparr> kpCalls = calls1, kpSent = sent1, flareCalls = calls2, flareSent = sent2 \<rparr>)"
    using w b1 b2
    by (simp add: checkAlerts_def Let_def block1_def [symmetric] now_def [symmetric]
        block2_def [symmetric])
  with r have "la' = la2"
    "out = \<lparr> kpCalls = calls1, kpSent = sent1, flareCalls = calls2, flareSent = sent2 \<rparr>"
    by simp_all
  with f1 f2 show ?thesis
    by (simp add: kpC_def flC_def subsA_def subsF_def now_def)
qed


lemma getSubscribersByType_nonempty:
  "(getSubscribersByType d readOk type \<noteq> []) =
     (readOk \<and> (\<exists>dc rows. d = Some dc \<and> subscriptionSheet dc = Some rows
        \<and> (\<exists>row \<in> set rows. row_type row = type \<and> row_status row = ENABLED)))"
  by (auto simp: getSubscribersByType_def filter_empty_conv split: option.splits)

lemma ALERT_COOLDOWN_pos: "0 < ALERT_COOLDOWN"
  by (simp add: ALERT_COOLDOWN_def)

lemma checkAlerts_timestamps:
  assumes "checkAlerts token la c d e = (la', c', d', out)"
  shows "(if kpSent out then ae_now e - last_kp la > ALERT_COOLDOWN \<and> last_kp la' = ae_now e
          else last_kp la' = last_kp la)
       \<and> (if flareSent out
            then ae_now e - last_flare la > ALERT_COOLDOWN \<and> last_flare la' = ae_now e
            else last_flare la' = last_flare la)"
proof -
  obtain c1 w b where
    read: "getSpaceWeather c True (ae_cacheNow e) (ae_stamp e) (ae_up e) = (c1, w, b)"
    by (metis surj_pair)
  show ?thesis
  proof (cases w)
    case (Failed err t)
    with read assms checkAlerts_failed [of c e c1 err t b token la d]
    have "la' = la"
      "out = \<lparr> kpCalls = [], kpSent = False, flareCalls = [], flareSent = False \<rparr>"
      by simp_all
    then show ?thesis by simp
  next
    case (Reading s)
    with read have "getSpaceWeather c True (ae_cacheNow e) (ae_stamp e) (ae_up e)
        = (c1, Reading s, b)" by simp
    from checkAlerts_reading [OF this assms] show ?thesis by simp
  qed
qed

lemma kpDispatchTimes_Cons:
  "kpDispatchTimes ((t, out) # outs) =
     (if kpSent out then t # kpDispatchTimes outs else kpDispatchTimes outs)"
  by (simp add: kpDispatchTimes_def)

lemma flareDispatchTimes_Cons:
  "flareDispatchTimes ((t, out) # outs) =
     (if flareSent out then t # flareDispatchTimes outs else flareDispatchTimes outs)"
  by (simp add: flareDispatchTimes_def)

lemma checkAlertsRun_kp:
  "checkAlertsRun token la ps = (la', outs) \<Longrightarrow>
     sorted_wrt (\<lambda>t t'. t' - t > ALERT_COOLDOWN) (kpDispatchTimes outs)
     \<and> (\<forall>t \<in> set (kpDispatchTimes outs). t - last_kp la > ALERT_COOLDOWN)
     \<and> last_kp la' =
         (if kpDispatchTimes outs = [] then last_kp la else last (kpDispatchTimes outs))"
proof (induction ps arbitrary: la la' outs)
  case Nil
  then show ?case by (simp add: kpDispatchTimes_def)
next
  case (Cons p ps)
  obtain la1 c1 d1 out where
    pass: "checkAlerts token la (ap_cache p) (ap_doc p) (ap_env p) = (la1, c1, d1, out)"
    by (metis surj_pair)
  obtain la2 outs2 where rest: "checkAlertsRun token la1 ps = (la2, outs2)"
    by (cases "checkAlertsRun token la1 ps")
  from Cons.prems pass rest have eq: "la' = la2" "outs = (ae_now (ap_env p), out) # outs2"
    by simp_all
  note ih = Cons.IH [OF rest]
  note ts = checkAlerts_timestamps [OF pass]
  show ?case
  proof (cases "kpSent out")
    case True
    with ts have gap: "ae_now (ap_env p) - last_kp la > ALERT_COOLDOWN"
      and now: "last_kp la1 = ae_now (ap_env p)" by simp_all
    from ih now have later: "\<forall>t \<in> set (kpDispatchTimes outs2).
        t - ae_now (ap_env p) > ALERT_COOLDOWN" by simp
    with gap ALERT_COOLDOWN_pos have "\<forall>t \<in> set (kpDispatchTimes outs2).
        t - last_kp la > ALERT_COOLDOWN" by fastforce
    with True eq ih gap now later show ?thesis
      by (simp add: kpDispatchTimes_Cons)
  next
    case False
    with ts have "last_kp la1 = last_kp la" by simp
    with False eq ih show ?thesis
      by (simp add: kpDispatchTimes_Cons)
  qed
qed

lemma checkAlertsRun_flare:
  "checkAlertsRun token la ps = (la', outs) \<Longrightarrow>
     sorted_wrt (\<lambda>t t'. t' - t > ALERT_COOLDOWN) (flareDispatchTimes outs)
     \<and> (\<forall>t \<in> set (flareDispatchTimes outs). t - last_flare la > ALERT_COOLDOWN)
     \<and> last_flare la' =
         (if flareDispatchTimes outs = [] then last_flare la else last (flareDispatchTimes outs))"
proof (induction ps arbitrary: la la' outs)
  case Nil
  then show ?case by (simp add: flareDispatchTimes_def)
next
  case (Cons p ps)
  obtain la1 c1 d1 out where
    pass: "checkAlerts token la (ap_cache p) (ap_doc p) (ap_env p) = (la1, c1, d1, out)"
    by (metis surj_pair)
  obtain la2 outs2 where rest: "checkAlertsRun token la1 ps = (la2, outs2)"
    by (cases "checkAlertsRun token la1 ps")
  from Cons.prems pass rest have eq: "la' = la2" "outs = (ae_now (ap_env p), out) # outs2"
    by simp_all
  note ih = Cons.IH [OF rest]
  note ts = checkAlerts_timestamps [OF pass]
  show ?case
  proof (cases "flareSent out")
    case True
    with ts have gap: "ae_now (ap_env p) - last_flare la > ALERT_COOLDOWN"
      and now: "last_flare la1 = ae_now (ap_env p)" by simp_all
    from ih now have later: "\<forall>t \<in> set (flareDispatchTimes outs2).
        t - ae_now (ap_env p) > ALERT_COOLDOWN" by simp
    with gap ALERT_COOLDOWN_pos have "\<forall>t \<in> set (flareDispatchTimes outs2).
        t - last_flare la > ALERT_COOLDOWN" by fastforce
    with True eq ih gap now later show ?thesis
      by (simp add: flareDispatchTimes_Cons)
  next
    case False
    with ts have "last_flare la1 = last_flare la" by simp
    with False eq ih show ?thesis
      by (simp add: flareDispatchTimes_Cons)
  qed
qed

lemma spaced_apart:
  assumes "sorted_wrt (\<lambda>t t'. t' - t > ALERT_COOLDOWN) ts"
    and "i < length ts" "j < length ts" "i \<noteq> j"
  shows "\<not> (ts ! i \<le> ts ! j \<and> ts ! j \<le> ts ! i + ALERT_COOLDOWN)"
proof (cases "i < j")
  case True
  with assms have "ts ! j - ts ! i > ALERT_COOLDOWN"
    by (simp add: sorted_wrt_iff_nth_less)
  then show ?thesis by simp
next
  case False
  with assms have "j < i" by simp
  with assms have "ts ! i - ts ! j > ALERT_COOLDOWN"
    by (simp add: sorted_wrt_iff_nth_less)
  with ALERT_COOLDOWN_pos show ?thesis by simp
qed


lemma endsWith_minutes:
  "length mm = 2 \<Longrightarrow> endsWith (hh @ '':'' @ mm) '':00'' = (mm = ''00'')"
  by (simp add: endsWith_def)

lemma beforeColon_hours:
  "CHR '':'' \<notin> set hh \<Longrightarrow> beforeColon (hh @ '':'' @ mm) = hh"
  by (induction hh) (auto simp: beforeColon_def)

lemma pushEach_requests:
  "pushEach token d users (Plain t) io i = (d', calls) \<Longrightarrow>
     \<forall>call \<in> set calls. pc_request call =
       (if configured token then Some (pc_userId call, [TextSegment t]) else None)"
proof (induction users arbitrary: d i d' calls)
  case Nil
  then show ?case by simp
next
  case (Cons user users)
  obtain d1 call where p: "linePush token d (sub_userId user) (Plain t) (io i) = (d1, call)"
    by (cases "linePush token d (sub_userId user) (Plain t) (io i)")
  obtain d2 rest where r: "pushEach token d1 users (Plain t) io (Suc i) = (d2, rest)"
    by (cases "pushEach token d1 users (Plain t) io (Suc i)")
  from Cons.prems p r have eq: "calls = call # rest" by simp
  from p have "pc_request call =
       (if configured token then Some (pc_userId call, [TextSegment t]) else None)"
    by (auto simp: linePush_def Let_def split: if_splits http_outcome.splits option.splits)
  with Cons.IH [OF r] eq show ?case by simp
qed

lemma dailyPush_off_hour:
  "\<not> endsWith (de_currentTime e) '':00'' \<Longrightarrow>
     dailyPush token c d e = (c, d, \<lparr> dp_refreshed = False, dp_calls = [], dp_thrown = None \<rparr>)"
  by (simp add: dailyPush_def)

lemma dailyPush_no_targets:
  "dailyTargets d e = [] \<Longrightarrow>
     dailyPush token c d e = (c, d, \<lparr> dp_refreshed = False, dp_calls = [], dp_thrown = None \<rparr>)"
  by (simp add: dailyPush_def dailyTargets_def Let_def)

lemma dailyPush_on_hour:
  assumes "endsWith (de_currentTime e) '':00''" and "dailyTargets d e \<noteq> []"
    and "dailyPush token c d e = (c', d', out)"
  shows "dp_refreshed out
     \<and> (case de_up e of
          Inl err \<Rightarrow> dp_calls out = [] \<and> dp_thrown out = Some TypeError
        | Inr f \<Rightarrow> (\<exists>s. buildResult (de_stamp e) f = Inr s
            \<and> c' = \<lparr> cachedSpaceWeather = Some s, cacheTime = de_cacheNow e \<rparr>
            \<and> dp_thrown out = None
            \<and> map pc_userId (dp_calls out) = map sub_userId (dailyTargets d e)
            \<and> (\<forall>call \<in> set (dp_calls out). pc_request call =
                 (if configured token
                  then Some (pc_userId call, [TextSegment (SpaceWeatherReport s)]) else None))))"
proof (cases "de_up e")
  case (Inl err)
  then have "getSpaceWeather c True (de_cacheNow e) (de_stamp e) (de_up e)
      = (c, Failed err (de_stamp e), True)"
    by (simp add: getSpaceWeather_def cacheHit_def)
  with assms Inl show ?thesis
    by (auto simp: dailyPush_def dailyTargets_def Let_def formatSpaceWeatherMessage_def)
next
  case (Inr f)
  obtain s where b: "buildResult (de_stamp e) f = Inr s"
    using buildResult_total by blast
  with Inr have g: "getSpaceWeather c True (de_cacheNow e) (de_stamp e) (de_up e)
      = (\<lparr> cachedSpaceWeather = Some s, cacheTime = de_cacheNow e \<rparr>, Reading s, True)"
    by (simp add: getSpaceWeather_def cacheHit_def)
  obtain dP calls where p: "pushEach token d (dailyTargets d e)
      (Plain (SpaceWeatherReport s)) (de_push e) 0 = (dP, calls)"
    by (cases "pushEach token d (dailyTargets d e)
      (Plain (SpaceWeatherReport s)) (de_push e) 0")
  with assms g have "c' = \<lparr> cachedSpaceWeather = Some s, cacheTime = de_cacheNow e \<rparr>"
    "out = \<lparr> dp_refreshed = True, dp_calls = calls, dp_thrown = None \<rparr>"
    by (simp_all add: dailyPush_def dailyTargets_def [symmetric] Let_def
        formatSpaceWeatherMessage_def)
  with pushEach_subscribers [OF p] pushEach_requests [OF p] Inr b show ?thesis
    by simp
qed


text \<open>
  C6. A tick of \<open>dailyPush\<close> whose formatted local time does not end in ":00" does nothing:
  no sheet read, no refresh, no push. On a tick whose time ends in ":00" the targets are
  the enabled "daily" subscribers whose stored push time equals the hour label (the text
  before the colon followed by ":00"); the reading cache is force-refreshed exactly when
  there is at least one target, and, the refresh giving a reading, \<open>linePush\<close> is called
  with the full report once for each target, in order, and for no one else. For a time
  of the form HH:MM the test is that MM is "00" and the label is HH:00.
\<close>

theorem daily_push_delivers_on_the_hour:
  assumes "dailyPush token c d e = (c', d', out)"
  shows "(\<not> endsWith (de_currentTime e) '':00'' \<longrightarrow>
        c' = c \<and> d' = d \<and> \<not> dp_refreshed out \<and> dp_calls out = [] \<and> dp_thrown out = None)
    \<and> (endsWith (de_currentTime e) '':00'' \<longrightarrow>
        dp_refreshed out = (dailyTargets d e \<noteq> [])
        \<and> (\<forall>f. de_up e = Inr f \<longrightarrow>
              map pc_userId (dp_calls out) = map sub_userId (dailyTargets d e)
              \<and> (\<exists>s. buildResult (de_stamp e) f = Inr s
                  \<and> (\<forall>call \<in> set (dp_calls out). pc_request call =
                       (if configured token
                        then Some (pc_userId call, [TextSegment (SpaceWeatherReport s)])
                        else None)))))
    \<and> dailyTargets d e =
        filter (\<lambda>s. sub_pushTime s = beforeColon (de_currentTime e) @ '':00'')
          (getSubscribersByType d (de_readOk e) ''daily'')
    \<and> (\<forall>hh mm. de_currentTime e = hh @ '':'' @ mm \<and> CHR '':'' \<notin> set hh \<and> length mm = 2
          \<longrightarrow> endsWith (de_currentTime e) '':00'' = (mm = ''00'')
              \<and> beforeColon (de_currentTime e) @ '':00'' = hh @ '':00'')"
proof (intro conjI impI allI)
  assume off: "\<not> endsWith (de_currentTime e) '':00''"
  from dailyPush_off_hour [OF off, of token c d] assms
  show "c' = c" "d' = d" "\<not> dp_refreshed out" "dp_calls out = []" "dp_thrown out = None"
    by auto
next
  assume on: "endsWith (de_currentTime e) '':00''"
  show "dp_refreshed out = (dailyTargets d e \<noteq> [])"
  proof (cases "dailyTargets d e = []")
    case True
    from dailyPush_no_targets [OF True, of token c] assms True show ?thesis by auto
  next
    case False
    from dailyPush_on_hour [OF on False assms] False show ?thesis by simp
  qed
next
  fix f
  assume on: "endsWith (de_currentTime e) '':00''" and up: "de_up e = Inr f"
  have "map pc_userId (dp_calls out) = map sub_userId (dailyTargets d e)
      \<and> (\<exists>s. buildResult (de_stamp e) f = Inr s
          \<and> (\<forall>call \<in> set (dp_calls out). pc_request call =
               (if configured token
                then Some (pc_userId call, [TextSegment (SpaceWeatherReport s)])
                else None)))"
  proof (cases "dailyTargets d e = []")
    case True
    from dailyPush_no_targets [OF True, of token c] assms have "dp_calls out = []" by auto
    with True buildResult_total [of "de_stamp e" f] show ?thesis by simp
  next
    case False
    from dailyPush_on_hour [OF on False assms] up show ?thesis by auto
  qed
  then show "map pc_userId (dp_calls out) = map sub_userId (dailyTargets d e)"
    and "\<exists>s. buildResult (de_stamp e) f = Inr s
          \<and> (\<forall>call \<in> set (dp_calls out). pc_request call =
               (if configured token
                then Some (pc_userId call, [TextSegment (SpaceWeatherReport s)])
                else None))"
    by blast+
next
  show "dailyTargets d e =
        filter (\<lambda>s. sub_pushTime s = beforeColon (de_currentTime e) @ '':00'')
          (getSubscribersByType d (de_readOk e) ''daily'')"
    by (simp add: dailyTargets_def)
next
  fix hh mm
  assume t: "de_currentTime e = hh @ '':'' @ mm \<and> CHR '':'' \<notin> set hh \<and> length mm = 2"
  then show "endsWith (de_currentTime e) '':00'' = (mm = ''00'')"
    using endsWith_minutes [of mm hh] by simp
  from t show "beforeColon (de_currentTime e) @ '':00'' = hh @ '':00''"
    using beforeColon_hours [of hh mm] by simp
qed

lemma example_daily_targets:
  "dailyTargets (Some example_doc) example_daily_env
     = [\<lparr> sub_userId = ''U1'', sub_pushTime = ''08:00'' \<rparr>]"
  by (simp add: dailyTargets_def example_daily_env_def beforeColon_def getSubscribersByType_def
      example_doc_def ENABLED_def DISABLED_def)

lemma example_daily_push:
  "dailyPush (Some ''token'') initial_cache (Some example_doc) example_daily_env
     = (\<lparr> cachedSpaceWeather = Some example_reading, cacheTime = 3000000 \<rparr>,
        Some (example_doc\<lparr> pushLogSheet := Some
           [\<lparr> log_time = ''t9'', log_userId = ''U1...'', log_type = ''push'',
              log_content = FirstChars (SpaceWeatherReport example_reading),
              log_status = ''success'' \<rparr>] \<rparr>),
        \<lparr> dp_refreshed = True,
          dp_calls = [\<lparr> pc_userId = ''U1'', pc_returned = True,
             pc_request = Some (''U1'', [TextSegment (SpaceWeatherReport example_reading)]) \<rparr>],
          dp_thrown = None \<rparr>)"
  by (simp add: dailyPush_def example_daily_env_def endsWith_def beforeColon_def
      getSubscribersByType_def example_doc_def ENABLED_def DISABLED_def
      getSpaceWeather_def cacheHit_def example_build formatSpaceWeatherMessage_def
      linePush_def configured_def push_ok_def contentPreview_def Let_def)

theorem daily_push_delivers_on_the_hour_witness:
  "dailyPush (Some ''token'') initial_cache (Some example_doc) example_daily_env
     = (\<lparr> cachedSpaceWeather = Some example_reading, cacheTime = 3000000 \<rparr>,
        Some (example_doc\<lparr> pushLogSheet := Some
           [\<lparr> log_time = ''t9'', log_userId = ''U1...'', log_type = ''push'',
              log_content = FirstChars (SpaceWeatherReport example_reading),
              log_status = ''success'' \<rparr>] \<rparr>),
        \<lparr> dp_refreshed = True,
          dp_calls = [\<lparr> pc_userId = ''U1'', pc_returned = True,
             pc_request = Some (''U1'', [TextSegment (SpaceWeatherReport example_reading)]) \<rparr>],
          dp_thrown = None \<rparr>)
   \<and> endsWith (de_currentTime example_daily_env) '':00''
   \<and> dailyTargets (Some example_doc) example_daily_env
       = [\<lparr> sub_userId = ''U1'', sub_pushTime = ''08:00'' \<rparr>]
   \<and> beforeColon (de_currentTime example_daily_env) @ '':00'' = ''08:00''
   \<and> \<not> endsWith ''08:03'' '':00''
   \<and> dailyPush (Some ''token'') initial_cache (Some example_doc)
         (example_daily_env\<lparr> de_currentTime := ''08:03'' \<rparr>)
       = (initial_cache, Some example_doc,
          \<lparr> dp_refreshed = False, dp_calls = [], dp_thrown = None \<rparr>)"
proof -
  have off: "dailyPush (Some ''token'') initial_cache (Some example_doc)
         (example_daily_env\<lparr> de_currentTime := ''08:03'' \<rparr>)
       = (initial_cache, Some example_doc,
          \<lparr> dp_refreshed = False, dp_calls = [], dp_thrown = None \<rparr>)"
    by (simp add: dailyPush_def endsWith_def)
  have t: "de_currentTime example_daily_env = ''08'' @ '':'' @ ''00''"
    by (simp add: example_daily_env_def)
  from daily_push_delivers_on_the_hour [OF example_daily_push]
    daily_push_delivers_on_the_hour [OF off]
    example_daily_push off example_daily_targets t
  show ?thesis
    by (simp add: endsWith_def example_daily_env_def beforeColon_def)
qed

lemma linePush_row:
  "linePush token d userId messages pio = (d1, call) \<Longrightarrow>
     pushLog d1 = pushLog d @
       (if configured token \<and> pio_http pio = HttpOk \<and> hasPushLog d \<and> pio_logOk pio
        then [\<lparr> log_time = pio_stamp pio, log_userId = take 10 userId @ ''...'',
                log_type = ''push'', log_content = contentPreview (msgArrayOf messages),
                log_status = ''success'' \<rparr>]
        else [])
     \<and> pc_request call =
         (if configured token then Some (userId, take 5 (msgArrayOf messages)) else None)"
  by (auto simp: linePush_def pushLog_def hasPushLog_def msgArrayOf_def Let_def
      split: if_splits http_outcome.splits option.splits)

lemma pushEach_rows:
  "pushEach token d users msg io i = (d', calls) \<Longrightarrow>
     \<exists>rows. pushLog d' = pushLog d @ rows
       \<and> map log_userId rows =
           (if hasPushLog d
            then map (\<lambda>call. take 10 (pc_userId call) @ ''...'') (filter pc_returned calls)
            else [])
       \<and> (\<forall>row \<in> set rows. log_type row = ''push'' \<and> log_status row = ''success''
             \<and> log_content row = contentPreview (msgArrayOf msg))"
proof (induction users arbitrary: d i d' calls)
  case Nil
  then show ?case by simp
next
  case (Cons user users)
  obtain d1 call where p: "linePush token d (sub_userId user) msg (io i) = (d1, call)"
    by (cases "linePush token d (sub_userId user) msg (io i)")
  obtain d2 rest where r: "pushEach token d1 users msg io (Suc i) = (d2, rest)"
    by (cases "pushEach token d1 users msg io (Suc i)")
  from Cons.prems p r have eq: "d' = d2" "calls = call # rest" by simp_all
  let ?row = "\<lparr> log_time = pio_stamp (io i), log_userId = take 10 (sub_userId user) @ ''...'',
                log_type = ''push'', log_content = contentPreview (msgArrayOf msg),
                log_status = ''success'' \<rparr>"
  let ?first = "if hasPushLog d \<and> pc_returned call then [?row] else []"
  from linePush_row [OF p] linePush_returned [OF p] linePush_log [OF p]
  have one: "pushLog d1 = pushLog d @ ?first" and h: "hasPushLog d1 = hasPushLog d"
    and u: "pc_userId call = sub_userId user"
    by auto
  from Cons.IH [OF r] obtain rows where
    rows: "pushLog d2 = pushLog d1 @ rows"
      "map log_userId rows =
           (if hasPushLog d1
            then map (\<lambda>call. take 10 (pc_userId call) @ ''...'') (filter pc_returned rest)
            else [])"
      "\<forall>row \<in> set rows. log_type row = ''push'' \<and> log_status row = ''success''
             \<and> log_content row = contentPreview (msgArrayOf msg)"
    by blast
  have "pushLog d' = pushLog d @ (?first @ rows)"
    using eq one rows(1) by simp
  moreover have "map log_userId (?first @ rows) =
           (if hasPushLog d
            then map (\<lambda>call. take 10 (pc_userId call) @ ''...'') (filter pc_returned calls)
            else [])"
    using eq rows(2) h u by simp
  moreover have "\<forall>row \<in> set (?first @ rows). log_type row = ''push''
      \<and> log_status row = ''success'' \<and> log_content row = contentPreview (msgArrayOf msg)"
    using rows(3) by auto
  ultimately show ?case by blast
qed

text \<open>
  C7 (as amended). A call of \<open>linePush\<close> appends a row to the push log exactly when the
  token is configured, the request is answered ok, the log sheet is there and the append
  succeeds. The row is put after the rows already in the log, which stay as they are; it
  is one row, with the time of the call, the shortened user id, type "push", the preview
  of the first segment and status "success". Such a call returns true; a failed attempt
  appends no row. Over a fan-out loop the log therefore grows, at its end, by one
  "success" row for each call that returned true, in the order of the calls (by nothing
  when there is no log sheet), not by one row per attempt.
\<close>

theorem push_log_grows_by_successful_pushes:
  "(linePush token d userId messages pio = (d1, call) \<longrightarrow>
      logLength d1 = logLength d +
        (if configured token \<and> pio_http pio = HttpOk \<and> hasPushLog d \<and> pio_logOk pio
         then 1 else 0)
      \<and> pushLog d1 = pushLog d @
        (if configured token \<and> pio_http pio = HttpOk \<and> hasPushLog d \<and> pio_logOk pio
         then [\<lparr> log_time = pio_stamp pio, log_userId = take 10 userId @ ''...'',
                 log_type = ''push'', log_content = contentPreview (msgArrayOf messages),
                 log_status = ''success'' \<rparr>]
         else [])
      \<and> pc_request call =
          (if configured token then Some (userId, take 5 (msgArrayOf messages)) else None)
      \<and> pc_returned call =
          (configured token \<and> pio_http pio = HttpOk \<and> (hasPushLog d \<longrightarrow> pio_logOk pio)))
   \<and> (pushEach token d users msg io i = (d', calls) \<longrightarrow>
      length calls = length users
      \<and> logLength d' =
          logLength d + (if hasPushLog d then length (filter pc_returned calls) else 0)
      \<and> (\<exists>rows. pushLog d' = pushLog d @ rows
          \<and> map log_userId rows =
              (if hasPushLog d
               then map (\<lambda>call. take 10 (pc_userId call) @ ''...'') (filter pc_returned calls)
               else [])
          \<and> (\<forall>row \<in> set rows. log_type row = ''push'' \<and> log_status row = ''success''
                \<and> log_content row = contentPreview (msgArrayOf msg))))"
proof (intro conjI impI)
  assume p: "linePush token d userId messages pio = (d1, call)"
  from linePush_log [OF p] linePush_returned [OF p]
  show "logLength d1 = logLength d +
        (if configured token \<and> pio_http pio = HttpOk \<and> hasPushLog d \<and> pio_logOk pio
         then 1 else 0)"
    by auto
  from linePush_row [OF p]
  show "pushLog d1 = pushLog d @
        (if configured token \<and> pio_http pio = HttpOk \<and> hasPushLog d \<and> pio_logOk pio
         then [\<lparr> log_time = pio_stamp pio, log_userId = take 10 userId @ ''...'',
                 log_type = ''push'', log_content = contentPreview (msgArrayOf messages),
                 log_status = ''success'' \<rparr>]
         else [])"
    and "pc_request call =
          (if configured token then Some (userId, take 5 (msgArrayOf messages)) else None)"
    by blast+
  from linePush_returned [OF p]
  show "pc_returned call =
          (configured token \<and> pio_http pio = HttpOk \<and> (hasPushLog d \<longrightarrow> pio_logOk pio))"
    by blast
next
  assume r: "pushEach token d users msg io i = (d', calls)"
  from pushEach_log [OF r] show "length calls = length users" by simp
  from pushEach_log [OF r] show "logLength d' =
          logLength d + (if hasPushLog d then length (filter pc_returned calls) else 0)"
    by simp
  from pushEach_rows [OF r]
  show "\<exists>rows. pushLog d' = pushLog d @ rows
          \<and> map log_userId rows =
              (if hasPushLog d
               then map (\<lambda>call. take 10 (pc_userId call) @ ''...'') (filter pc_returned calls)
               else [])
          \<and> (\<forall>row \<in> set rows. log_type row = ''push'' \<and> log_status row = ''success''
                \<and> log_content row = contentPreview (msgArrayOf msg))" .
qed


lemma example_fan_out:
  "pushEach (Some ''token'') (Some example_logged_doc)
       [\<lparr> sub_userId = ''U1'', sub_pushTime = [] \<rparr>, \<lparr> sub_userId = ''U2'', sub_pushTime = [] \<rparr>]
       (Plain (Literal ''hello''))
       (\<lambda>i. if i = 0 then push_rejected else push_ok) 0
     = (Some (example_doc\<lparr> pushLogSheet := Some
           [example_old_row,
            \<lparr> log_time = ''t9'', log_userId = ''U2...'', log_type = ''push'',
              log_content = FirstChars (Literal ''hello''), log_status = ''success'' \<rparr>] \<rparr>),
        [\<lparr> pc_userId = ''U1'', pc_returned = False,
           pc_request = Some (''U1'', [TextSegment (Literal ''hello'')]) \<rparr>,
         \<lparr> pc_userId = ''U2'', pc_returned = True,
           pc_request = Some (''U2'', [TextSegment (Literal ''hello'')]) \<rparr>])"
  by (simp add: linePush_def configured_def push_ok_def push_rejected_def example_doc_def
      example_logged_doc_def contentPreview_def Let_def)

lemma example_single_push:
  "linePush (Some ''token'') (Some example_logged_doc) ''U2'' (Plain (Literal ''hello'')) push_ok
     = (Some (example_doc\<lparr> pushLogSheet := Some
           [example_old_row,
            \<lparr> log_time = ''t9'', log_userId = ''U2...'', log_type = ''push'',
              log_content = FirstChars (Literal ''hello''), log_status = ''success'' \<rparr>] \<rparr>),
        \<lparr> pc_userId = ''U2'', pc_returned = True,
           pc_request = Some (''U2'', [TextSegment (Literal ''hello'')]) \<rparr>)"
  by (simp add: linePush_def configured_def push_ok_def example_doc_def
      example_logged_doc_def contentPreview_def Let_def)

theorem push_log_grows_by_successful_pushes_witness:
  "pushEach (Some ''token'') (Some example_logged_doc)
       [\<lparr> sub_userId = ''U1'', sub_pushTime = [] \<rparr>, \<lparr> sub_userId = ''U2'', sub_pushTime = [] \<rparr>]
       (Plain (Literal ''hello''))
       (\<lambda>i. if i = 0 then push_rejected else push_ok) 0
     = (Some (example_doc\<lparr> pushLogSheet := Some
           [example_old_row,
            \<lparr> log_time = ''t9'', log_userId = ''U2...'', log_type = ''push'',
              log_content = FirstChars (Literal ''hello''), log_status = ''success'' \<rparr>] \<rparr>),
        [\<lparr> pc_userId = ''U1'', pc_returned = False,
           pc_request = Some (''U1'', [TextSegment (Literal ''hello'')]) \<rparr>,
         \<lparr> pc_userId = ''U2'', pc_returned = True,
           pc_request = Some (''U2'', [TextSegment (Literal ''hello'')]) \<rparr>])
   \<and> linePush (Some ''token'') (Some example_logged_doc) ''U2'' (Plain (Literal ''hello''))
         push_ok
     = (Some (example_doc\<lparr> pushLogSheet := Some
           [example_old_row,
            \<lparr> log_time = ''t9'', log_userId = ''U2...'', log_type = ''push'',
              log_content = FirstChars (Literal ''hello''), log_status = ''success'' \<rparr>] \<rparr>),
        \<lparr> pc_userId = ''U2'', pc_returned = True,
           pc_request = Some (''U2'', [TextSegment (Literal ''hello'')]) \<rparr>)
   \<and> pushLog (Some (example_doc\<lparr> pushLogSheet := Some
           [example_old_row,
            \<lparr> log_time = ''t9'', log_userId = ''U2...'', log_type = ''push'',
              log_content = FirstChars (Literal ''hello''), log_status = ''success'' \<rparr>] \<rparr>))
       = pushLog (Some example_logged_doc) @
           [\<lparr> log_time = ''t9'', log_userId = ''U2...'', log_type = ''push'',
              log_content = FirstChars (Literal ''hello''), log_status = ''success'' \<rparr>]
   \<and> pushLog (Some example_logged_doc) = [example_old_row]
   \<and> logLength (Some (example_doc\<lparr> pushLogSheet := Some
           [example_old_row,
            \<lparr> log_time = ''t9'', log_userId = ''U2...'', log_type = ''push'',
              log_content = FirstChars (Literal ''hello''), log_status = ''success'' \<rparr>] \<rparr>))
       = logLength (Some example_logged_doc) + 1"
proof -
  have facts: "configured (Some ''token'')" "pio_http push_ok = HttpOk" "pio_logOk push_ok"
    "hasPushLog (Some example_logged_doc)" "pio_stamp push_ok = ''t9''"
    "contentPreview (msgArrayOf (Plain (Literal ''hello''))) = FirstChars (Literal ''hello'')"
    by (simp_all add: configured_def push_ok_def hasPushLog_def example_logged_doc_def
        contentPreview_def msgArrayOf_def)
  have old: "pushLog (Some example_logged_doc) = [example_old_row]"
    by (simp add: pushLog_def example_logged_doc_def)
  from push_log_grows_by_successful_pushes [of "Some ''token''" "Some example_logged_doc"
      "''U2''" "Plain (Literal ''hello'')" push_ok
      "Some (example_doc\<lparr> pushLogSheet := Some
           [example_old_row,
            \<lparr> log_time = ''t9'', log_userId = ''U2...'', log_type = ''push'',
              log_content = FirstChars (Literal ''hello''), log_status = ''success'' \<rparr>] \<rparr>)"
      "\<lparr> pc_userId = ''U2'', pc_returned = True,
         pc_request = Some (''U2'', [TextSegment (Literal ''hello'')]) \<rparr>"
      "[\<lparr> sub_userId = ''U1'', sub_pushTime = [] \<rparr>, \<lparr> sub_userId = ''U2'', sub_pushTime = [] \<rparr>]"
      "Plain (Literal ''hello'')" "\<lambda>i. if i = 0 then push_rejected else push_ok" 0]
    example_single_push example_fan_out facts old
  show ?thesis
    by simp
qed

lemma checkAlerts_calls:
  assumes w: "getSpaceWeather c True (ae_cacheNow e) (ae_stamp e) (ae_up e) = (c1, Reading s, b)"
    and r: "checkAlerts token la c d e = (la', c', d', out)"
  shows "kpCalls out =
        (if kpSent out
         then snd (pushEach token d (getSubscribersByType d (ae_auroraReadOk e) ''aurora'')
                (Plain (AuroraAlertText s)) (ae_auroraPush e) 0)
         else [])
    \<and> (\<exists>d1. d1 =
          (if kpSent out
           then fst (pushEach token d (getSubscribersByType d (ae_auroraReadOk e) ''aurora'')
                  (Plain (AuroraAlertText s)) (ae_auroraPush e) 0)
           else d)
        \<and> flareCalls out =
          (if flareSent out
           then snd (pushEach token d1 (getSubscribersByType d (ae_flareReadOk e) ''flare'')
                  (Plain (FlareAlertText s)) (ae_flarePush e) 0)
           else [])
        \<and> d' =
          (if flareSent out
           then fst (pushEach token d1 (getSubscribersByType d (ae_flareReadOk e) ''flare'')
                  (Plain (FlareAlertText s)) (ae_flarePush e) 0)
           else d1))
    \<and> c' = c1"
proof -
  define now where "now = ae_now e"
  define subsA where "subsA = getSubscribersByType d (ae_auroraReadOk e) ''aurora''"
  define kpC where "kpC \<longleftrightarrow>
    kp (kpRecord s) \<ge> 5 \<and> now - last_kp la > ALERT_COOLDOWN \<and> subsA \<noteq> []"
  define pushA where
    "pushA = pushEach token d subsA (Plain (AuroraAlertText s)) (ae_auroraPush e) 0"
  define block1 where "block1 =
    (if kp (kpRecord s) \<ge> 5 \<and> now - last_kp la > ALERT_COOLDOWN then
       let subscribers = getSubscribersByType d (ae_auroraReadOk e) ''aurora'' in
       if length subscribers > 0 then
         (case pushEach token d subscribers (Plain (AuroraAlertText s)) (ae_auroraPush e) 0 of
            (d', calls) \<Rightarrow> (la\<lparr> last_kp := now \<rparr>, d', calls, True))
       else (la, d, [], False)
     else (la, d, [], False))"
  obtain la1 d1 calls1 sent1 where b1: "block1 = (la1, d1, calls1, sent1)"
    by (cases block1) auto
  have f1: "sent1 = kpC \<and> last_flare la1 = last_flare la
      \<and> calls1 = (if kpC then snd pushA else [])
      \<and> d1 = (if kpC then fst pushA else d)
      \<and> getSubscribersByType d1 (ae_flareReadOk e) ''flare''
          = getSubscribersByType d (ae_flareReadOk e) ''flare''"
  proof (cases kpC)
    case True
    obtain dA callsA where pA: "pushA = (dA, callsA)"
      by (cases pushA)
    with True b1 have "la1 = la\<lparr> last_kp := now \<rparr>" "d1 = dA" "calls1 = callsA" "sent1"
      by (simp_all add: block1_def kpC_def subsA_def pushA_def)
    with True pA pushEach_subscribers [OF pA [unfolded pushA_def],
        of "ae_flareReadOk e" "''flare''"]
    show ?thesis by simp
  next
    case False
    with b1 have "la1 = la" "d1 = d" "calls1 = []" "\<not> sent1"
      by (auto simp: block1_def kpC_def subsA_def split: if_splits)
    with False show ?thesis by simp
  qed
  define subsF where "subsF = getSubscribersByType d (ae_flareReadOk e) ''flare''"
  define flC where "flC \<longleftrightarrow>
    flareClass (xray s) = ''X'' \<and> now - last_flare la > ALERT_COOLDOWN \<and> subsF \<noteq> []"
  define pushF where
    "pushF = pushEach token d1 subsF (Plain (FlareAlertText s)) (ae_flarePush e) 0"
  define block2 where "block2 =
    (if flareClass (xray s) = ''X'' \<and> now - last_flare la1 > ALERT_COOLDOWN then
       let subscribers = getSubscribersByType d1 (ae_flareReadOk e) ''flare'' in
       if length subscribers > 0 then
         (case pushEach token d1 subscribers (Plain (FlareAlertText s)) (ae_flarePush e) 0 of
            (d', calls) \<Rightarrow> (la1\<lparr> last_flare := now \<rparr>, d', calls, True))
       else (la1, d1, [], False)
     else (la1, d1, [], False))"
  obtain la2 d2 calls2 sent2 where b2: "block2 = (la2, d2, calls2, sent2)"
    by (cases block2) auto
  from f1 have lf: "last_flare la1 = last_flare la"
    and sf: "getSubscribersByType d1 (ae_flareReadOk e) ''flare'' = subsF"
    unfolding subsF_def by blast+
  have f2: "sent2 = flC \<and> calls2 = (if flC then snd pushF else [])
      \<and> d2 = (if flC then fst pushF else d1)"
  proof (cases flC)
    case True
    obtain dF callsF where pF: "pushF = (dF, callsF)"
      by (cases pushF)
    with True b2 lf sf have "d2 = dF" "calls2 = callsF" "sent2"
      by (simp_all add: block2_def flC_def pushF_def)
    with True pF show ?thesis by simp
  next
    case False
    with b2 lf sf have "d2 = d1" "calls2 = []" "\<not> sent2"
      by (auto simp: block2_def flC_def split: if_splits)
    with False show ?thesis by simp
  qed
  have "checkAlerts token la c d e =
      (la2, c1, d2, \<lparr> kpCalls = calls1, kpSent = sent1, flareCalls = calls2, flareSent = sent2 \<rparr>)"
    using w b1 b2
    by (simp add: checkAlerts_def Let_def block1_def [symmetric] now_def [symmetric]
        block2_def [symmetric])
  with r have "d' = d2" "c' = c1"
    "out = \<lparr> kpCalls = calls1, kpSent = sent1, flareCalls = calls2, flareSent = sent2 \<rparr>"
    by simp_all
  with f1 f2 show ?thesis
    by (simp add: pushA_def pushF_def subsA_def subsF_def)
qed


text \<open>
  C2. In a pass of \<open>checkAlerts\<close> the aurora block runs to its end (it calls \<open>linePush\<close> once
  for every subscriber and then records \<open>lastAlerts.kp = now\<close>) exactly when the reading has
  Kp at least 5, more than the cooldown has passed since \<open>lastAlerts.kp\<close>, and
  \<open>getSubscribersByType('aurora')\<close> is not empty; the flare block likewise with flare class
  "X", \<open>lastAlerts.flare\<close> and the flare subscribers. Otherwise the block pushes nothing and
  leaves its timestamp. When a block runs, its calls are those of the fan-out loop over
  the whole subscriber list, in order: with the token configured every subscriber is
  posted one request carrying the alert text of the topic, built from the reading. What
  the pushes return plays no part: the statement holds for every outcome of the
  requests. The subscriber list is not empty exactly when the sheet is read and has an
  enabled row of the type.
\<close>

theorem alert_fires_iff_threshold_cooldown_subscriber:
  assumes "checkAlerts token la c d e = (la', c', d', out)"
    and "getSpaceWeather c True (ae_cacheNow e) (ae_stamp e) (ae_up e) = (c1, w, b)"
  shows "kpSent out =
        ((\<exists>s. w = Reading s \<and> kp (kpRecord s) \<ge> 5) \<and> ae_now e - last_kp la > ALERT_COOLDOWN
         \<and> getSubscribersByType d (ae_auroraReadOk e) ''aurora'' \<noteq> [])
    \<and> flareSent out =
        ((\<exists>s. w = Reading s \<and> flareClass (xray s) = ''X'')
         \<and> ae_now e - last_flare la > ALERT_COOLDOWN
         \<and> getSubscribersByType d (ae_flareReadOk e) ''flare'' \<noteq> [])
    \<and> map pc_userId (kpCalls out) =
        (if kpSent out
         then map sub_userId (getSubscribersByType d (ae_auroraReadOk e) ''aurora'') else [])
    \<and> map pc_userId (flareCalls out) =
        (if flareSent out
         then map sub_userId (getSubscribersByType d (ae_flareReadOk e) ''flare'') else [])
    \<and> last_kp la' = (if kpSent out then ae_now e else last_kp la)
    \<and> last_flare la' = (if flareSent out then ae_now e else last_flare la)
    \<and> (getSubscribersByType d readOk type \<noteq> []) =
        (readOk \<and> (\<exists>dc rows. d = Some dc \<and> subscriptionSheet dc = Some rows
           \<and> (\<exists>row \<in> set rows. row_type row = type \<and> row_status row = ENABLED)))
    \<and> (\<forall>s. w = Reading s \<longrightarrow>
          kpCalls out =
            (if kpSent out
             then snd (pushEach token d (getSubscribersByType d (ae_auroraReadOk e) ''aurora'')
                    (Plain (AuroraAlertText s)) (ae_auroraPush e) 0)
             else [])
          \<and> flareCalls out =
            (if flareSent out
             then snd (pushEach token
                    (if kpSent out
                     then fst (pushEach token d
                            (getSubscribersByType d (ae_auroraReadOk e) ''aurora'')
                            (Plain (AuroraAlertText s)) (ae_auroraPush e) 0)
                     else d)
                    (getSubscribersByType d (ae_flareReadOk e) ''flare'')
                    (Plain (FlareAlertText s)) (ae_flarePush e) 0)
             else [])
          \<and> (\<forall>call \<in> set (kpCalls out). pc_request call =
               (if configured token
                then Some (pc_userId call, [TextSegment (AuroraAlertText s)]) else None))
          \<and> (\<forall>call \<in> set (flareCalls out). pc_request call =
               (if configured token
                then Some (pc_userId call, [TextSegment (FlareAlertText s)]) else None)))
    \<and> (kpCalls out \<noteq> []) = kpSent out
    \<and> (flareCalls out \<noteq> []) = flareSent out"
proof (cases w)
  case (Failed err t)
  with assms checkAlerts_failed [of c e c1 err t b token la d]
  have "la' = la"
    "out = \<lparr> kpCalls = [], kpSent = False, flareCalls = [], flareSent = False \<rparr>"
    by simp_all
  with Failed getSubscribersByType_nonempty [of d readOk type] show ?thesis by simp
next
  case (Reading s)
  with assms(2) have g: "getSpaceWeather c True (ae_cacheNow e) (ae_stamp e) (ae_up e)
      = (c1, Reading s, b)" by simp
  note basic = checkAlerts_reading [OF g assms(1)]
  note calls = checkAlerts_calls [OF g assms(1)]
  let ?subsA = "getSubscribersByType d (ae_auroraReadOk e) ''aurora''"
  let ?subsF = "getSubscribersByType d (ae_flareReadOk e) ''flare''"
  let ?pA = "pushEach token d ?subsA (Plain (AuroraAlertText s)) (ae_auroraPush e) 0"
  let ?d1 = "if kpSent out then fst ?pA else d"
  let ?pF = "pushEach token ?d1 ?subsF (Plain (FlareAlertText s)) (ae_flarePush e) 0"
  from calls have kc: "kpCalls out = (if kpSent out then snd ?pA else [])"
    and fc: "flareCalls out = (if flareSent out then snd ?pF else [])"
    by auto
  have ra: "\<forall>call \<in> set (kpCalls out). pc_request call =
               (if configured token
                then Some (pc_userId call, [TextSegment (AuroraAlertText s)]) else None)"
  proof (cases "kpSent out")
    case True
    have "?pA = (fst ?pA, snd ?pA)" by simp
    from pushEach_requests [OF this] kc True show ?thesis by simp
  next
    case False
    with kc show ?thesis by simp
  qed
  have rf: "\<forall>call \<in> set (flareCalls out). pc_request call =
               (if configured token
                then Some (pc_userId call, [TextSegment (FlareAlertText s)]) else None)"
  proof (cases "flareSent out")
    case True
    have "?pF = (fst ?pF, snd ?pF)" by simp
    from pushEach_requests [OF this] fc True show ?thesis by simp
  next
    case False
    with fc show ?thesis by simp
  qed
  from basic have ne: "(kpCalls out \<noteq> []) = kpSent out" "(flareCalls out \<noteq> []) = flareSent out"
    by (auto split: if_splits)
  have new: "\<forall>s'. w = Reading s' \<longrightarrow>
          kpCalls out =
            (if kpSent out
             then snd (pushEach token d ?subsA (Plain (AuroraAlertText s')) (ae_auroraPush e) 0)
             else [])
          \<and> flareCalls out =
            (if flareSent out
             then snd (pushEach token
                    (if kpSent out
                     then fst (pushEach token d ?subsA
                            (Plain (AuroraAlertText s')) (ae_auroraPush e) 0)
                     else d)
                    ?subsF (Plain (FlareAlertText s')) (ae_flarePush e) 0)
             else [])
          \<and> (\<forall>call \<in> set (kpCalls out). pc_request call =
               (if configured token
                then Some (pc_userId call, [TextSegment (AuroraAlertText s')]) else None))
          \<and> (\<forall>call \<in> set (flareCalls out). pc_request call =
               (if configured token
                then Some (pc_userId call, [TextSegment (FlareAlertText s')]) else None))"
    using Reading kc fc ra rf by simp
  from basic Reading getSubscribersByType_nonempty [of d readOk type]
  have old: "kpSent out =
        ((\<exists>s. w = Reading s \<and> kp (kpRecord s) \<ge> 5) \<and> ae_now e - last_kp la > ALERT_COOLDOWN
         \<and> ?subsA \<noteq> [])
    \<and> flareSent out =
        ((\<exists>s. w = Reading s \<and> flareClass (xray s) = ''X'')
         \<and> ae_now e - last_flare la > ALERT_COOLDOWN
         \<and> ?subsF \<noteq> [])
    \<and> map pc_userId (kpCalls out) = (if kpSent out then map sub_userId ?subsA else [])
    \<and> map pc_userId (flareCalls out) = (if flareSent out then map sub_userId ?subsF else [])
    \<and> last_kp la' = (if kpSent out then ae_now e else last_kp la)
    \<and> last_flare la' = (if flareSent out then ae_now e else last_flare la)
    \<and> (getSubscribersByType d readOk type \<noteq> []) =
        (readOk \<and> (\<exists>dc rows. d = Some dc \<and> subscriptionSheet dc = Some rows
           \<and> (\<exists>row \<in> set rows. row_type row = type \<and> row_status row = ENABLED)))"
    by simp
  from old new ne show ?thesis by blast
qed


lemma example_mixed_pass:
  "checkAlerts (Some ''token'') initial_lastAlerts initial_cache (Some example_alert_doc)
       example_mixed_env
     = (\<lparr> last_kp = 10000000, last_flare = 10000000, last_cme = 0, last_radiation = 0 \<rparr>,
        \<lparr> cachedSpaceWeather = Some example_reading, cacheTime = 9999000 \<rparr>,
        Some (example_alert_doc\<lparr> pushLogSheet := Some
           [\<lparr> log_time = ''t9'', log_userId = ''U4...'', log_type = ''push'',
              log_content = FirstChars (AuroraAlertText example_reading),
              log_status = ''success'' \<rparr>,
            \<lparr> log_time = ''t9'', log_userId = ''U2...'', log_type = ''push'',
              log_content = FirstChars (FlareAlertText example_reading),
              log_status = ''success'' \<rparr>] \<rparr>),
        \<lparr> kpCalls =
            [\<lparr> pc_userId = ''U1'', pc_returned = False,
               pc_request = Some (''U1'', [TextSegment (AuroraAlertText example_reading)]) \<rparr>,
             \<lparr> pc_userId = ''U4'', pc_returned = True,
               pc_request = Some (''U4'', [TextSegment (AuroraAlertText example_reading)]) \<rparr>],
          kpSent = True,
          flareCalls =
            [\<lparr> pc_userId = ''U2'', pc_returned = True,
               pc_request = Some (''U2'', [TextSegment (FlareAlertText example_reading)]) \<rparr>],
          flareSent = True \<rparr>)"
  by (simp add: checkAlerts_def example_mixed_env_def example_alert_env_def getSpaceWeather_def
      cacheHit_def initial_cache_def example_build initial_lastAlerts_def ALERT_COOLDOWN_def
      getSubscribersByType_def example_alert_doc_def example_doc_def ENABLED_def DISABLED_def
      linePush_def configured_def push_ok_def push_rejected_def contentPreview_def Let_def
      example_reading_def)

theorem alert_fires_iff_threshold_cooldown_subscriber_witness:
  "checkAlerts (Some ''token'') initial_lastAlerts initial_cache (Some example_alert_doc)
       example_mixed_env
     = (\<lparr> last_kp = 10000000, last_flare = 10000000, last_cme = 0, last_radiation = 0 \<rparr>,
        \<lparr> cachedSpaceWeather = Some example_reading, cacheTime = 9999000 \<rparr>,
        Some (example_alert_doc\<lparr> pushLogSheet := Some
           [\<lparr> log_time = ''t9'', log_userId = ''U4...'', log_type = ''push'',
              log_content = FirstChars (AuroraAlertText example_reading),
              log_status = ''success'' \<rparr>,
            \<lparr> log_time = ''t9'', log_userId = ''U2...'', log_type = ''push'',
              log_content = FirstChars (FlareAlertText example_reading),
              log_status = ''success'' \<rparr>] \<rparr>),
        \<lparr> kpCalls =
            [\<lparr> pc_userId = ''U1'', pc_returned = False,
               pc_request = Some (''U1'', [TextSegment (AuroraAlertText example_reading)]) \<rparr>,
             \<lparr> pc_userId = ''U4'', pc_returned = True,
               pc_request = Some (''U4'', [TextSegment (AuroraAlertText example_reading)]) \<rparr>],
          kpSent = True,
          flareCalls =
            [\<lparr> pc_userId = ''U2'', pc_returned = True,
               pc_request = Some (''U2'', [TextSegment (FlareAlertText example_reading)]) \<rparr>],
          flareSent = True \<rparr>)
   \<and> kp (kpRecord example_reading) \<ge> 5
   \<and> flareClass (xray example_reading) = ''X''
   \<and> ae_now example_mixed_env - last_kp initial_lastAlerts > ALERT_COOLDOWN
   \<and> getSubscribersByType (Some example_alert_doc) (ae_auroraReadOk example_mixed_env) ''aurora''
       = [\<lparr> sub_userId = ''U1'', sub_pushTime = [] \<rparr>, \<lparr> sub_userId = ''U4'', sub_pushTime = [] \<rparr>]
   \<and> getSubscribersByType (Some example_alert_doc) (ae_flareReadOk example_mixed_env) ''flare''
       = [\<lparr> sub_userId = ''U2'', sub_pushTime = [] \<rparr>]
   \<and> ae_now example_mixed_env = 10000000"
proof -
  have read: "getSpaceWeather initial_cache True (ae_cacheNow example_mixed_env)
      (ae_stamp example_mixed_env) (ae_up example_mixed_env)
     = (\<lparr> cachedSpaceWeather = Some example_reading, cacheTime = 9999000 \<rparr>,
        Reading example_reading, True)"
    by (simp add: example_mixed_env_def example_alert_env_def getSpaceWeather_def cacheHit_def
        example_build)
  have subs: "getSubscribersByType (Some example_alert_doc) (ae_auroraReadOk example_mixed_env)
      ''aurora'' = [\<lparr> sub_userId = ''U1'', sub_pushTime = [] \<rparr>,
                   \<lparr> sub_userId = ''U4'', sub_pushTime = [] \<rparr>]"
    "getSubscribersByType (Some example_alert_doc) (ae_flareReadOk example_mixed_env)
      ''flare'' = [\<lparr> sub_userId = ''U2'', sub_pushTime = [] \<rparr>]"
    by (simp_all add: getSubscribersByType_def example_alert_doc_def example_doc_def
        example_mixed_env_def example_alert_env_def ENABLED_def DISABLED_def)
  from alert_fires_iff_threshold_cooldown_subscriber [OF example_mixed_pass read] subs
    example_mixed_pass
  show ?thesis
    by (simp add: example_mixed_env_def example_alert_env_def)
qed

text \<open>
  Passes that run one after another, each returning before the next begins, keep the
  cooldown: whatever each pass reads and whatever its clock shows, two different aurora
  dispatches of such a run are never one hour or less apart, and neither are two flare
  dispatches. The only state the run keeps for a topic is the time of its last dispatch,
  and a later pass treats the topic as armed exactly by comparing its clock with that
  time (more than one hour later).
\<close>

lemma sequential_passes_keep_cooldown:
  assumes "checkAlertsRun token la ps = (la', outs)"
  shows "(\<forall>i j. i < length (kpDispatchTimes outs) \<and> j < length (kpDispatchTimes outs) \<and> i \<noteq> j
        \<longrightarrow> \<not> (kpDispatchTimes outs ! i \<le> kpDispatchTimes outs ! j
              \<and> kpDispatchTimes outs ! j \<le> kpDispatchTimes outs ! i + ALERT_COOLDOWN))
    \<and> (\<forall>i j. i < length (flareDispatchTimes outs) \<and> j < length (flareDispatchTimes outs)
          \<and> i \<noteq> j
        \<longrightarrow> \<not> (flareDispatchTimes outs ! i \<le> flareDispatchTimes outs ! j
              \<and> flareDispatchTimes outs ! j \<le> flareDispatchTimes outs ! i + ALERT_COOLDOWN))
    \<and> last_kp la' =
        (if kpDispatchTimes outs = [] then last_kp la else last (kpDispatchTimes outs))
    \<and> last_flare la' =
        (if flareDispatchTimes outs = [] then last_flare la else last (flareDispatchTimes outs))
    \<and> (\<forall>c d e la2 c2 d2 out c1 s b.
          checkAlerts token la' c d e = (la2, c2, d2, out)
          \<and> getSpaceWeather c True (ae_cacheNow e) (ae_stamp e) (ae_up e) = (c1, Reading s, b)
        \<longrightarrow> kpSent out =
              (ae_now e - last_kp la' > ALERT_COOLDOWN \<and> kp (kpRecord s) \<ge> 5
               \<and> getSubscribersByType d (ae_auroraReadOk e) ''aurora'' \<noteq> [])
            \<and> flareSent out =
              (ae_now e - last_flare la' > ALERT_COOLDOWN \<and> flareClass (xray s) = ''X''
               \<and> getSubscribersByType d (ae_flareReadOk e) ''flare'' \<noteq> []))"
proof (intro conjI allI impI)
  fix i j
  assume "i < length (kpDispatchTimes outs) \<and> j < length (kpDispatchTimes outs) \<and> i \<noteq> j"
  with checkAlertsRun_kp [OF assms]
  show "\<not> (kpDispatchTimes outs ! i \<le> kpDispatchTimes outs ! j
              \<and> kpDispatchTimes outs ! j \<le> kpDispatchTimes outs ! i + ALERT_COOLDOWN)"
    using spaced_apart by blast
next
  fix i j
  assume "i < length (flareDispatchTimes outs) \<and> j < length (flareDispatchTimes outs) \<and> i \<noteq> j"
  with checkAlertsRun_flare [OF assms]
  show "\<not> (flareDispatchTimes outs ! i \<le> flareDispatchTimes outs ! j
              \<and> flareDispatchTimes outs ! j \<le> flareDispatchTimes outs ! i + ALERT_COOLDOWN)"
    using spaced_apart by blast
next
  from checkAlertsRun_kp [OF assms]
  show "last_kp la' =
        (if kpDispatchTimes outs = [] then last_kp la else last (kpDispatchTimes outs))"
    by simp
next
  from checkAlertsRun_flare [OF assms]
  show "last_flare la' =
        (if flareDispatchTimes outs = [] then last_flare la else last (flareDispatchTimes outs))"
    by simp
next
  fix c d e la2 c2 d2 out c1 s b
  assume a: "checkAlerts token la' c d e = (la2, c2, d2, out)
          \<and> getSpaceWeather c True (ae_cacheNow e) (ae_stamp e) (ae_up e) = (c1, Reading s, b)"
  then have r: "checkAlerts token la' c d e = (la2, c2, d2, out)"
    and w: "getSpaceWeather c True (ae_cacheNow e) (ae_stamp e) (ae_up e) = (c1, Reading s, b)"
    by simp_all
  from checkAlerts_reading [OF w r]
  show "kpSent out =
              (ae_now e - last_kp la' > ALERT_COOLDOWN \<and> kp (kpRecord s) \<ge> 5
               \<and> getSubscribersByType d (ae_auroraReadOk e) ''aurora'' \<noteq> [])"
    by auto
  from checkAlerts_reading [OF w r]
  show "flareSent out =
              (ae_now e - last_flare la' > ALERT_COOLDOWN \<and> flareClass (xray s) = ''X''
               \<and> getSubscribersByType d (ae_flareReadOk e) ''flare'' \<noteq> [])"
    by auto
qed

lemma example_run_times:
  "kpDispatchTimes (snd (checkAlertsRun (Some ''token'') initial_lastAlerts example_passes))
     = [10000000, 13660000]
   \<and> flareDispatchTimes (snd (checkAlertsRun (Some ''token'') initial_lastAlerts example_passes))
     = [10000000, 13660000]
   \<and> last_kp (fst (checkAlertsRun (Some ''token'') initial_lastAlerts example_passes))
     = 13660000"
  by (simp add: example_passes_def kpDispatchTimes_def flareDispatchTimes_def
      checkAlerts_def example_alert_env_def getSpaceWeather_def cacheHit_def
      initial_cache_def example_build initial_lastAlerts_def ALERT_COOLDOWN_def
      getSubscribersByType_def example_doc_def ENABLED_def DISABLED_def linePush_def
      configured_def push_ok_def push_rejected_def contentPreview_def Let_def
      example_reading_def)

lemma sequential_passes_example:
  "kpDispatchTimes (snd (checkAlertsRun (Some ''token'') initial_lastAlerts example_passes))
     = [10000000, 13660000]
   \<and> map (ae_now \<circ> ap_env) example_passes = [10000000, 10600000, 13660000]
   \<and> \<not> ((10000000 :: int) \<le> 13660000 \<and> (13660000 :: int) \<le> 10000000 + ALERT_COOLDOWN)
   \<and> last_kp (fst (checkAlertsRun (Some ''token'') initial_lastAlerts example_passes))
     = last [10000000, 13660000]"
proof -
  have "checkAlertsRun (Some ''token'') initial_lastAlerts example_passes
      = (fst (checkAlertsRun (Some ''token'') initial_lastAlerts example_passes),
         snd (checkAlertsRun (Some ''token'') initial_lastAlerts example_passes))"
    by simp
  from sequential_passes_keep_cooldown [OF this] example_run_times
  show ?thesis
    by (simp add: example_passes_def example_alert_env_def ALERT_COOLDOWN_def)
qed

lemma example_storm_build:
  "buildResult ''t0'' example_storm_fetched = Inr example_calm_sun_reading"
  by (simp add: buildResult_def deriveAlerts_def alertKp_def alertXray_def alertProton_def
      kpValue_def orDefault_def auroraChances_def js_round_def example_storm_fetched_def
      example_calm_sun_reading_def example_reading_def)

text \<open>
  C1. The cooldown is not kept when two passes overlap. From \<open>lastAlerts\<close> all zero, a
  pass at \<open>now = 10000000\<close> and the next one five minutes later (\<open>now = 10300000\<close>), both
  reading Kp 5.2 with two aurora subscribers, the second making its test while the first
  is still pushing: both passes reach the end of the aurora block, each posts the aurora
  alert to both subscribers, and the two dispatches are 300000 ms apart, inside the
  one-hour cooldown.
\<close>

theorem overlapping_passes_both_dispatch:
  "checkAlertsOverlapping (Some ''token'') initial_lastAlerts example_first_pass
       example_second_pass
     = (\<lparr> last_kp = 10300000, last_flare = 0, last_cme = 0, last_radiation = 0 \<rparr>,
        [(10000000, \<lparr> kpCalls =
              [\<lparr> pc_userId = ''U1'', pc_returned = True,
                 pc_request = Some (''U1'', [TextSegment (AuroraAlertText example_calm_sun_reading)]) \<rparr>,
               \<lparr> pc_userId = ''U4'', pc_returned = True,
                 pc_request = Some (''U4'', [TextSegment (AuroraAlertText example_calm_sun_reading)]) \<rparr>],
            kpSent = True, flareCalls = [], flareSent = False \<rparr>),
         (10300000, \<lparr> kpCalls =
              [\<lparr> pc_userId = ''U1'', pc_returned = True,
                 pc_request = Some (''U1'', [TextSegment (AuroraAlertText example_calm_sun_reading)]) \<rparr>,
               \<lparr> pc_userId = ''U4'', pc_returned = True,
                 pc_request = Some (''U4'', [TextSegment (AuroraAlertText example_calm_sun_reading)]) \<rparr>],
            kpSent = True, flareCalls = [], flareSent = False \<rparr>)])
   \<and> kpDispatchTimes (snd (checkAlertsOverlapping (Some ''token'') initial_lastAlerts
         example_first_pass example_second_pass)) = [10000000, 10300000]
   \<and> (10000000 :: int) < 10300000 \<and> (10300000 :: int) < 10000000 + ALERT_COOLDOWN"
  by (simp add: checkAlertsOverlapping_def example_first_pass_def example_second_pass_def
      kpDispatchTimes_def checkAlerts_def example_storm_env_def getSpaceWeather_def
      cacheHit_def initial_cache_def example_storm_build initial_lastAlerts_def
      ALERT_COOLDOWN_def getSubscribersByType_def example_alert_doc_def example_doc_def
      ENABLED_def DISABLED_def linePush_def configured_def push_ok_def contentPreview_def
      Let_def example_calm_sun_reading_def example_reading_def)

end
